theory Spec2Isabelle
  imports Complex_Main "HOL-Library.Word"
begin

section \<open>Q-Flash: data model\<close>

text \<open>
  The embedding follows \<^verbatim>\<open>src/postgres 9.6/q-flash.c\<close>. The file-level static variables
  of the module become one record that every function takes and returns. Calls into the engine
  (SPI, the native executor hooks, the system catalogs, the plan printer) are not part of the
  module: their answers are fields of a record \<open>engine\<close>, and every call that has an effect is
  appended to the field \<open>calls\<close> of the state, in program order.

  An \<^verbatim>\<open>Oid\<close> is an unsigned 32-bit integer, \<^verbatim>\<open>int\<close> a 32-bit word read with
  \<open>sint\<close>. A \<^verbatim>\<open>double\<close> is the rational number it denotes, and the product of two
  doubles is the exact product rounded to the nearest double (\<open>float8_mul\<close> below). A C
  string is a \<open>string\<close> without its terminator, and a PostgreSQL \<^verbatim>\<open>List *\<close> is a list whose empty value is the
  \<^verbatim>\<open>NULL\<close> pointer (\<^verbatim>\<open>NIL\<close>).

  Covered are the sink resolution, the eligibility decision, the configuration hooks, the
  run, finish and end hooks, the persistence of a record and the provisioning function. The
  start hook and the installation of the hooks in \<^verbatim>\<open>_PG_init\<close> are left out, and so are
  the messages written with \<^verbatim>\<open>elog(LOG, ...)\<close> and \<^verbatim>\<open>elog(DEBUG1, ...)\<close>.
\<close>

type_synonym Oid = "32 word"

definition InvalidOid :: Oid where
  "InvalidOid = 0"

definition OidIsValid :: "Oid \<Rightarrow> bool" where
  "OidIsValid objectId \<longleftrightarrow> objectId \<noteq> InvalidOid"

text \<open>
  The arithmetic of \<^verbatim>\<open>double\<close>: a result is rounded to 53 significant bits, to the
  nearest value and to the even one of two nearest values. \<open>bit_length n\<close> is the number of
  binary digits of \<open>n\<close>, \<open>pow2 e\<close> is \<open>2\<close> to the power \<open>e\<close>. In \<open>float8_round\<close>,
  \<open>e\<close> is the exponent of the leading bit of \<open>x\<close> and \<open>ulp\<close> the weight of the last of
  the 53 bits. The exponent is not limited here: a time in seconds or milliseconds is far
  from the overflow and the underflow of a \<^verbatim>\<open>double\<close>.
\<close>

fun bit_length :: "nat \<Rightarrow> nat" where
  "bit_length n = (if n = 0 then 0 else Suc (bit_length (n div 2)))"

declare bit_length.simps [simp del]

definition pow2 :: "int \<Rightarrow> rat" where
  "pow2 e = (if 0 \<le> e then 2 ^ nat e else 1 / 2 ^ nat (- e))"

definition float8_round :: "rat \<Rightarrow> rat" where
  "float8_round x =
     (if x = 0 then 0
      else
        let a = \<bar>x\<bar>;
            c = (if 1 \<le> a then int (bit_length (nat \<lfloor>a\<rfloor>)) - 1
                 else 1 - int (bit_length (nat \<lfloor>1 / a\<rfloor>)));
            e = (if pow2 c \<le> a then c else c - 1);
            ulp = pow2 (e - 52);
            n = \<lfloor>a / ulp\<rfloor>;
            r = a / ulp - of_int n;
            m = (if r < 1 / 2 then n
                 else if 1 / 2 < r then n + 1
                 else if even n then n else n + 1)
        in sgn x * of_int m * ulp)"

text \<open>The product \<^verbatim>\<open>a * b\<close> of two doubles.\<close>

definition float8_mul :: "rat \<Rightarrow> rat \<Rightarrow> rat" where
  "float8_mul a b = float8_round (a * b)"

datatype CmdType =
  CMD_UNKNOWN | CMD_SELECT | CMD_UPDATE | CMD_INSERT | CMD_DELETE | CMD_UTILITY | CMD_NOTHING

datatype ExplainFormat =
  EXPLAIN_FORMAT_TEXT | EXPLAIN_FORMAT_XML | EXPLAIN_FORMAT_JSON | EXPLAIN_FORMAT_YAML

text \<open>The instrumentation handle \<^verbatim>\<open>queryDesc->totaltime\<close>; \<open>total\<close> is in seconds.\<close>

record Instrumentation =
  total :: rat

text \<open>The fields of \<^verbatim>\<open>QueryDesc\<close> (with \<^verbatim>\<open>plannedstmt->relationOids\<close> inlined) that the
  module reads. \<open>totaltime = None\<close> is the \<^verbatim>\<open>NULL\<close> handle.\<close>

record QueryDesc =
  operation :: CmdType
  sourceText :: string
  relationOids :: "Oid list"
  totaltime :: "Instrumentation option"

record ExplainState =
  str :: string
  analyze :: bool
  verbose :: bool
  buffers :: bool
  timing :: bool
  summary :: bool
  format :: ExplainFormat

datatype Datum = TextDatum string | Float8Datum rat

text \<open>An argument of type \<^verbatim>\<open>text\<close> as it lies in memory: \<open>vardata\<close> are the bytes of
  the value, which \<^verbatim>\<open>VARDATA\<close> points to and which carry no terminator of their own, and
  \<open>beyond\<close> are the bytes that follow the value in memory, as far as the first zero
  byte at least.\<close>

record text_datum =
  vardata :: string
  beyond :: string

text \<open>The calls into the engine that the module makes, as they are observed from outside.\<close>

datatype engine_call =
  SPI_connect
| SPI_push
| SPI_pop
| SPI_prepare string nat
| SPI_execute_plan string "Datum list" string
| SPI_execute string
| SPI_finish
| Native_ExecutorRun
| Native_ExecutorFinish
| Native_ExecutorEnd

text \<open>How a call ends: it returns, it leaves through \<^verbatim>\<open>elog(ERROR, ...)\<close> (a non-local
  exit that \<^verbatim>\<open>PG_CATCH\<close> intercepts), or the process dies on a \<^verbatim>\<open>NULL\<close> dereference.\<close>

datatype outcome = Returned | Raised string | Crashed

record qflash_state =
  qflash_enabled_status :: bool
  qflash_log_min_duration :: rat
  qflash_log_hash :: string
  qflash_log_rel_name :: string
  qflash_log_namespace_name :: string
  qflash_log_namespace_oid :: Oid
  qflash_log_rel_oid :: Oid
  qflash_log_nested :: bool
  nesting_level :: "32 word"
  nesting_spi_level :: "32 word"
  calls :: "engine_call list"

text \<open>The values of the static variables when the library is loaded (lines 15-26).\<close>

definition initial_state :: qflash_state where
  "initial_state = \<lparr>
     qflash_enabled_status = False,
     qflash_log_min_duration = 0,
     qflash_log_hash = [],
     qflash_log_rel_name = [],
     qflash_log_namespace_name = [],
     qflash_log_namespace_oid = InvalidOid,
     qflash_log_rel_oid = InvalidOid,
     qflash_log_nested = False,
     nesting_level = 0,
     nesting_spi_level = 0,
     calls = [] \<rparr>"

text \<open>
  The engine as the module sees it. \<open>TypeRelationId\<close> is the constant of
  \<^verbatim>\<open>catalog/pg_type.h\<close>; the two catalog lookups return \<open>InvalidOid\<close> for a name that
  does not exist; the SPI fields are the
  answers of the SPI calls; \<open>ExplainOutput\<close> is the text that \<^verbatim>\<open>ExplainBeginOutput\<close>,
  \<^verbatim>\<open>ExplainPrintPlan\<close>, \<^verbatim>\<open>ExplainPrintTriggers\<close> and \<^verbatim>\<open>ExplainEndOutput\<close> leave in
  \<^verbatim>\<open>es->str\<close>; \<open>InstrEndLoop\<close> closes the accumulation of a handle and
  \<open>NewExplainState\<close> is the freshly allocated printer state. The scan direction and the row
  count that the run hook hands on unchanged are left out of a \<open>handler\<close>.
\<close>

record engine =
  TypeRelationId :: Oid
  get_namespace_oid :: "string \<Rightarrow> Oid"
  get_relname_relid :: "string \<Rightarrow> Oid \<Rightarrow> Oid"
  SPI_connect_ok :: bool
  SPI_prepare_ok :: bool
  SPI_execute_plan_res :: int
  SPI_execute_ok :: bool
  SPI_finish_ok :: bool
  InstrEndLoop :: "Instrumentation \<Rightarrow> Instrumentation"
  NewExplainState :: ExplainState
  ExplainOutput :: "ExplainState \<Rightarrow> QueryDesc \<Rightarrow> string"

type_synonym handler = "QueryDesc \<Rightarrow> qflash_state \<Rightarrow> outcome \<times> qflash_state"

text \<open>The saved hook values (\<open>None\<close> is \<^verbatim>\<open>NULL\<close>) and the engine's native steps.\<close>

record hooks =
  prev_ExecutorRun :: "handler option"
  standard_ExecutorRun :: handler
  prev_ExecutorFinish :: "handler option"
  standard_ExecutorFinish :: handler
  prev_ExecutorEnd :: "handler option"
  standard_ExecutorEnd :: handler

definition emit :: "engine_call \<Rightarrow> qflash_state \<Rightarrow> qflash_state" where
  "emit c s = s\<lparr>calls := calls s @ [c]\<rparr>"

section \<open>Sink resolution and the configuration hooks\<close>

text \<open>Lines 151-159.\<close>

definition set_qflash_namespace_oid :: "engine \<Rightarrow> string \<Rightarrow> qflash_state \<Rightarrow> bool \<times> qflash_state" where
  "set_qflash_namespace_oid eng namespace_name s =
     (if length namespace_name = 0 then (False, s)
      else
        let s1 = s\<lparr>qflash_log_namespace_oid := get_namespace_oid eng namespace_name\<rparr> in
        if \<not> OidIsValid (qflash_log_namespace_oid s1) then (False, s1)
        else (True, s1))"

text \<open>Lines 161-169.\<close>

definition set_qflash_relname_oid :: "engine \<Rightarrow> string \<Rightarrow> qflash_state \<Rightarrow> bool \<times> qflash_state" where
  "set_qflash_relname_oid eng relname_name s =
     (if \<not> OidIsValid (qflash_log_namespace_oid s) \<or> length relname_name = 0 then (False, s)
      else
        let s1 = s\<lparr>qflash_log_rel_oid :=
                     get_relname_relid eng relname_name (qflash_log_namespace_oid s)\<rparr> in
        if \<not> OidIsValid (qflash_log_rel_oid s1) then (False, s1)
        else (True, s1))"

text \<open>Lines 171-180: both results of the setters are discarded.\<close>

definition get_qflash_log_rel_oid :: "engine \<Rightarrow> qflash_state \<Rightarrow> Oid \<times> qflash_state" where
  "get_qflash_log_rel_oid eng s =
     (if \<not> OidIsValid (qflash_log_rel_oid s) then
        let s1 = snd (set_qflash_namespace_oid eng (qflash_log_namespace_name s) s);
            s2 = snd (set_qflash_relname_oid eng (qflash_log_rel_name s1) s1)
        in (qflash_log_rel_oid s2, s2)
      else (qflash_log_rel_oid s, s))"

text \<open>Lines 191-199, the last conjunct of \<^verbatim>\<open>qflash_enabled\<close>: only the head cell of the
  list is compared.\<close>

definition recursion_guard :: "engine \<Rightarrow> qflash_state \<Rightarrow> Oid list \<Rightarrow> bool" where
  "recursion_guard eng s oids \<longleftrightarrow>
     oids = [] \<or>
     (length oids > 0
      \<and> hd oids \<noteq> qflash_log_rel_oid s
      \<and> hd oids \<noteq> TypeRelationId eng)"

text \<open>Lines 182-201. \<^verbatim>\<open>&&\<close> evaluates from left to right and stops at the first false
  conjunct, so the sink is resolved only when the first two conjuncts hold.\<close>

definition qflash_enabled :: "engine \<Rightarrow> QueryDesc \<Rightarrow> qflash_state \<Rightarrow> bool \<times> qflash_state" where
  "qflash_enabled eng queryDesc s =
     (if \<not> qflash_enabled_status s then (False, s)
      else if \<not> (nesting_level s = 0 \<or> qflash_log_nested s) then (False, s)
      else
        let (oid, s1) = get_qflash_log_rel_oid eng s in
        if \<not> oid \<noteq> InvalidOid then (False, s1)
        else if \<not> (operation queryDesc = CMD_SELECT \<or> operation queryDesc = CMD_UPDATE
                   \<or> operation queryDesc = CMD_INSERT \<or> operation queryDesc = CMD_DELETE)
        then (False, s1)
        else (recursion_guard eng s1 (relationOids queryDesc), s1))"

text \<open>Lines 203-209.\<close>

definition enabled_GucAssign :: "bool \<Rightarrow> qflash_state \<Rightarrow> qflash_state" where
  "enabled_GucAssign newval s =
     (if newval then s
      else s\<lparr>qflash_log_rel_oid := InvalidOid, qflash_log_namespace_oid := InvalidOid\<rparr>)"

text \<open>Lines 211-217.\<close>

definition namespace_GucCheck :: "engine \<Rightarrow> string \<Rightarrow> qflash_state \<Rightarrow> bool \<times> qflash_state" where
  "namespace_GucCheck eng newval s =
     (if \<not> qflash_enabled_status s then (True, s)
      else
        let (ok, s1) = set_qflash_namespace_oid eng newval s in
        if \<not> ok then (False, s1) else (True, s1))"

text \<open>Lines 219-228.\<close>

definition rel_GucCheck :: "engine \<Rightarrow> string \<Rightarrow> qflash_state \<Rightarrow> bool \<times> qflash_state" where
  "rel_GucCheck eng newval s =
     (if \<not> qflash_enabled_status s then (True, s)
      else
        let (ok, s1) = set_qflash_relname_oid eng newval s in
        if \<not> ok then (False, s1) else (True, s1))"

section \<open>Text built with \<^verbatim>\<open>appendStringInfo\<close>\<close>

text \<open>The only conversion the module's format strings use is \<^verbatim>\<open>%s\<close>: each one is
  replaced by the next argument, every other character is copied.\<close>

fun appendStringInfo :: "string \<Rightarrow> string list \<Rightarrow> string" where
  "appendStringInfo [] args = []"
| "appendStringInfo (c # cs) args =
     (if c = CHR ''%'' then
        (case cs of
           [] \<Rightarrow> [c]
         | d # ds \<Rightarrow>
             if d = CHR ''s'' then
               (case args of
                  [] \<Rightarrow> appendStringInfo ds []
                | a # as \<Rightarrow> a @ appendStringInfo ds as)
             else c # appendStringInfo cs args)
      else c # appendStringInfo cs args)"

definition TAB :: char where
  "TAB = CHR 0x09"

definition LF :: char where
  "LF = CHR 0x0A"

text \<open>Lines 72-83. A backslash at the end of a source line joins it to the next one, so the
  literal holds the tabs that indent each line and no line break.\<close>

definition ddl_format :: string where
  "ddl_format =
     [TAB, TAB] @ ''CREATE TABLE %s.%s'' @
     [TAB, TAB] @ ''('' @
     [TAB, TAB, TAB] @ ''id BIGSERIAL NOT NULL,'' @
     [TAB, TAB, TAB] @ ''added TIME WITH TIME ZONE NOT NULL DEFAULT now(),'' @
     [TAB, TAB, TAB] @ ''query TEXT,'' @
     [TAB, TAB, TAB] @ ''plan TEXT,'' @
     [TAB, TAB, TAB] @ ''total_time DOUBLE PRECISION,'' @
     [TAB, TAB, TAB] @ ''hash TEXT,'' @
     [TAB, TAB, TAB] @ ''CONSTRAINT qflash_pkey PRIMARY KEY(id)'' @
     [TAB, TAB] @ '')'' @
     [TAB]"

text \<open>What \<^verbatim>\<open>%s\<close> reads at an address: the bytes up to the first zero byte.\<close>

definition read_cstring :: "string \<Rightarrow> string" where
  "read_cstring mem = takeWhile (\<lambda>c. c \<noteq> CHR 0x00) mem"

text \<open>Lines 67-83. Each \<^verbatim>\<open>%s\<close> is given \<^verbatim>\<open>VARDATA\<close> of an argument, so it reads the
  value and then on into the bytes that follow it, up to the first zero byte.\<close>

definition ddl_query :: "text_datum \<Rightarrow> text_datum \<Rightarrow> string" where
  "ddl_query namespace_name relname_name =
     appendStringInfo ddl_format
       [read_cstring (vardata namespace_name @ beyond namespace_name),
        read_cstring (vardata relname_name @ beyond relname_name)]"

text \<open>Lines 64-102. The result value \<^verbatim>\<open>true\<close> of the SQL function is the outcome
  \<open>Returned\<close>.\<close>

definition qflash_init :: "engine \<Rightarrow> text_datum \<Rightarrow> text_datum \<Rightarrow> qflash_state \<Rightarrow> outcome \<times> qflash_state" where
  "qflash_init eng namespace_name relname_name s =
     (let s1 = emit SPI_connect s
      in
        if \<not> SPI_connect_ok eng then (Raised ''SPI_connect failed'', s1)
        else
          let s2 = emit (SPI_execute (ddl_query namespace_name relname_name)) s1 in
          if \<not> SPI_execute_ok eng then (Raised ''SPI_execute DDL failed'', s2)
          else
            let s3 = emit SPI_finish s2 in
            if \<not> SPI_finish_ok eng then (Raised ''SPI_finish failed'', s3)
            else (Returned, s3))"

text \<open>Lines 417-425. The buffer of a \<^verbatim>\<open>StringInfo\<close> is never \<^verbatim>\<open>NULL\<close>.\<close>

definition generate_insert_log_query :: "qflash_state \<Rightarrow> string option" where
  "generate_insert_log_query s =
     Some (appendStringInfo
       ''INSERT INTO %s.%s (query, plan, total_time, hash) VALUES ($1, $2, $3, $4)''
       [qflash_log_namespace_name s, qflash_log_rel_name s])"

section \<open>The executor hooks\<close>

text \<open>Lines 268-286.\<close>

definition explain_ExecutorRun :: "hooks \<Rightarrow> QueryDesc \<Rightarrow> qflash_state \<Rightarrow> outcome \<times> qflash_state" where
  "explain_ExecutorRun hk queryDesc s =
     (let s1 = s\<lparr>nesting_level := nesting_level s + 1\<rparr>;
          (r, s2) = (case prev_ExecutorRun hk of
                       Some prev \<Rightarrow> prev queryDesc s1
                     | None \<Rightarrow> standard_ExecutorRun hk queryDesc s1)
      in case r of
           Returned \<Rightarrow> (Returned, s2\<lparr>nesting_level := nesting_level s2 - 1\<rparr>)
         | Raised e \<Rightarrow> (Raised e, s2\<lparr>nesting_level := nesting_level s2 - 1\<rparr>)
         | Crashed \<Rightarrow> (Crashed, s2))"

text \<open>Lines 291-309.\<close>

definition explain_ExecutorFinish :: "hooks \<Rightarrow> QueryDesc \<Rightarrow> qflash_state \<Rightarrow> outcome \<times> qflash_state" where
  "explain_ExecutorFinish hk queryDesc s =
     (let s1 = s\<lparr>nesting_level := nesting_level s + 1\<rparr>;
          (r, s2) = (case prev_ExecutorFinish hk of
                       Some prev \<Rightarrow> prev queryDesc s1
                     | None \<Rightarrow> standard_ExecutorFinish hk queryDesc s1)
      in case r of
           Returned \<Rightarrow> (Returned, s2\<lparr>nesting_level := nesting_level s2 - 1\<rparr>)
         | Raised e \<Rightarrow> (Raised e, s2\<lparr>nesting_level := nesting_level s2 - 1\<rparr>)
         | Crashed \<Rightarrow> (Crashed, s2))"

text \<open>Lines 342-344: the text loses its last character when that is a line feed.\<close>

definition remove_last_line_break :: "string \<Rightarrow> string" where
  "remove_last_line_break data =
     (if length data > 0 \<and> data ! (length data - 1) = LF
      then take (length data - 1) data
      else data)"

text \<open>Lines 349-350. On an empty text the second store would go to the byte before the
  buffer, which is \<open>None\<close> here.\<close>

definition fix_json_object :: "string \<Rightarrow> string option" where
  "fix_json_object data =
     (if length data = 0 then None
      else Some ((data[0 := CHR ''{''])[length data - 1 := CHR ''}'']))"

text \<open>Lines 399-415, the part of \<^verbatim>\<open>log_InRelation\<close> after the connection is set up.\<close>

definition log_execute :: "engine \<Rightarrow> string \<Rightarrow> Datum list \<Rightarrow> string \<Rightarrow> qflash_state \<Rightarrow> outcome \<times> qflash_state" where
  "log_execute eng query_string vals nulls s =
     (let s1 = emit (SPI_prepare query_string 4) s in
      if \<not> SPI_prepare_ok eng then (Raised ''SPI_execute_plan failed'', s1)
      else
        let s2 = emit (SPI_execute_plan query_string vals nulls) s1 in
        if SPI_execute_plan_res eng \<le> 0 then (Raised ''SPI_execute_plan failed'', s2)
        else
          let s3 = emit SPI_finish s2 in
          if \<not> SPI_finish_ok eng then (Raised ''SPI_finish failed'', s3)
          else (Returned, s3))"

text \<open>Lines 365-415. The initialiser of \<^verbatim>\<open>values\<close> reads \<^verbatim>\<open>queryDesc->totaltime->total\<close>
  before anything else happens. The two comparisons of the nesting levels are two separate
  statements: the second one sees the level that the first one has just stored.\<close>

definition log_InRelation :: "engine \<Rightarrow> ExplainState \<Rightarrow> QueryDesc \<Rightarrow> qflash_state \<Rightarrow> outcome \<times> qflash_state" where
  "log_InRelation eng es queryDesc s =
     (case totaltime queryDesc of
        None \<Rightarrow> (Crashed, s)
      | Some instr \<Rightarrow>
          let nulls = [CHR '' '', CHR '' '', CHR '' '',
                       (if length (qflash_log_hash s) \<noteq> 0 then CHR '' '' else CHR ''n'')];
              vals = [TextDatum (sourceText queryDesc),
                      TextDatum (str es),
                      Float8Datum (float8_mul (total instr) 1000),
                      TextDatum (qflash_log_hash s)]
          in
            (case generate_insert_log_query s of
               None \<Rightarrow> (Returned, s)
             | Some query_string \<Rightarrow>
                 let s1 = (if sint (nesting_spi_level s) < sint (nesting_level s)
                           then (emit SPI_push s)\<lparr>nesting_spi_level := nesting_level s\<rparr>
                           else s)
                 in
                   if sint (nesting_spi_level s1) > sint (nesting_level s1) then
                     log_execute eng query_string vals nulls
                       ((emit SPI_pop s1)\<lparr>nesting_spi_level := nesting_level s1\<rparr>)
                   else
                     let s2 = emit SPI_connect s1 in
                     if \<not> SPI_connect_ok eng then (Raised ''SPI_connect failed'', s2)
                     else log_execute eng query_string vals nulls s2))"

text \<open>Lines 359-360.\<close>

definition delegate_ExecutorEnd :: "hooks \<Rightarrow> QueryDesc \<Rightarrow> qflash_state \<Rightarrow> outcome \<times> qflash_state" where
  "delegate_ExecutorEnd hk queryDesc s =
     (case prev_ExecutorEnd hk of
        Some prev \<Rightarrow> prev queryDesc s
      | None \<Rightarrow> standard_ExecutorEnd hk queryDesc s)"

text \<open>Lines 327-351: the printer state is set up, the plan is printed and the text is
  post-processed. \<open>None\<close> is the store before the buffer in \<open>fix_json_object\<close>.\<close>

definition render_plan :: "engine \<Rightarrow> QueryDesc \<Rightarrow> ExplainState option" where
  "render_plan eng queryDesc =
     (let es0 = NewExplainState eng;
          es1 = es0\<lparr>analyze := True\<rparr>;
          es2 = es1\<lparr>verbose := True\<rparr>;
          es3 = es2\<lparr>buffers := analyze es2\<rparr>;
          es4 = es3\<lparr>timing := analyze es3\<rparr>;
          es5 = es4\<lparr>summary := analyze es4\<rparr>;
          es6 = es5\<lparr>format := EXPLAIN_FORMAT_TEXT\<rparr>;
          es7 = es6\<lparr>str := ExplainOutput eng es6 queryDesc\<rparr>;
          es8 = es7\<lparr>str := remove_last_line_break (str es7)\<rparr>
      in
        if format es8 = EXPLAIN_FORMAT_JSON then
          (case fix_json_object (str es8) of
             None \<Rightarrow> None
           | Some data \<Rightarrow> Some (es8\<lparr>str := data\<rparr>))
        else Some es8)"

text \<open>Lines 312-363. The \<^verbatim>\<open>return\<close> of line 325 leaves the function at once. An error
  raised in \<^verbatim>\<open>log_InRelation\<close> leaves it too.\<close>

definition explain_ExecutorEnd :: "hooks \<Rightarrow> engine \<Rightarrow> QueryDesc \<Rightarrow> qflash_state \<Rightarrow> outcome \<times> qflash_state" where
  "explain_ExecutorEnd hk eng queryDesc s =
     (let (en, s1) = qflash_enabled eng queryDesc s in
      if en then
        (case totaltime queryDesc of
           None \<Rightarrow> (Crashed, s1)
         | Some instr0 \<Rightarrow>
             let instr = InstrEndLoop eng instr0;
                 qd = queryDesc\<lparr>totaltime := Some instr\<rparr>
             in
               if float8_mul (total instr) 1000 \<le> qflash_log_min_duration s1
               then (Returned, s1)
               else
                 (case render_plan eng qd of
                    None \<Rightarrow> (Crashed, s1)
                  | Some es \<Rightarrow>
                      let (r, s2) = log_InRelation eng es qd s1 in
                      (case r of
                         Returned \<Rightarrow> delegate_ExecutorEnd hk qd s2
                       | Raised e \<Rightarrow> (Raised e, s2)
                       | Crashed \<Rightarrow> (Crashed, s2))))
      else delegate_ExecutorEnd hk queryDesc s1)"

section \<open>Predicates used in the statements\<close>

text \<open>The pairing of the two cached identifiers: the relation identifier is set only if the
  namespace identifier is.\<close>

definition sink_ids_paired :: "qflash_state \<Rightarrow> bool" where
  "sink_ids_paired s \<longleftrightarrow>
     (OidIsValid (qflash_log_rel_oid s) \<longrightarrow> OidIsValid (qflash_log_namespace_oid s))"

text \<open>A log record is written by \<^verbatim>\<open>SPI_execute_plan\<close>; \<open>log_records\<close> are the records
  among the calls made so far.\<close>

fun is_log_record :: "engine_call \<Rightarrow> bool" where
  "is_log_record (SPI_execute_plan q vals nulls) = True"
| "is_log_record _ = False"

definition log_records :: "qflash_state \<Rightarrow> engine_call list" where
  "log_records s = filter is_log_record (calls s)"

text \<open>An argument whose value holds no zero byte and is followed by one in memory.\<close>

definition zero_terminated :: "text_datum \<Rightarrow> bool" where
  "zero_terminated t \<longleftrightarrow> CHR 0x00 \<notin> set (vardata t) \<and> take 1 (beyond t) = [CHR 0x00]"

text \<open>\<open>occurs_in p xs\<close>: the text \<open>p\<close> occurs somewhere in \<open>xs\<close>.\<close>

fun occurs_in :: "string \<Rightarrow> string \<Rightarrow> bool" where
  "occurs_in p [] = (p = [])"
| "occurs_in p (c # cs) = (take (length p) (c # cs) = p \<or> occurs_in p cs)"

section \<open>A concrete engine and session\<close>

text \<open>A small catalog with one schema \<^verbatim>\<open>public\<close> (2200) and one table
  \<^verbatim>\<open>public.qflash_log\<close> (16384), an SPI that succeeds (7 is \<^verbatim>\<open>SPI_OK_INSERT\<close>), a
  printer that prints one line, and native executor steps that only leave a mark. The
  query of the session took half a second, which is a \<^verbatim>\<open>double\<close>, as are the
  thresholds it is compared with.\<close>

definition demo_engine :: engine where
  "demo_engine = \<lparr>
     TypeRelationId = 1247,
     get_namespace_oid = (\<lambda>n. if n = ''public'' then 2200 else InvalidOid),
     get_relname_relid = (\<lambda>r ns. if r = ''qflash_log'' \<and> ns = 2200 then 16384 else InvalidOid),
     SPI_connect_ok = True,
     SPI_prepare_ok = True,
     SPI_execute_plan_res = 7,
     SPI_execute_ok = True,
     SPI_finish_ok = True,
     InstrEndLoop = (\<lambda>i. i),
     NewExplainState = \<lparr>str = [], analyze = False, verbose = False, buffers = False,
                         timing = False, summary = False, format = EXPLAIN_FORMAT_TEXT\<rparr>,
     ExplainOutput = (\<lambda>es qd. ''Seq Scan on t'' @ [LF]) \<rparr>"

definition demo_hooks :: hooks where
  "demo_hooks = \<lparr>
     prev_ExecutorRun = None,
     standard_ExecutorRun = (\<lambda>qd s. (Returned, emit Native_ExecutorRun s)),
     prev_ExecutorFinish = None,
     standard_ExecutorFinish = (\<lambda>qd s. (Returned, emit Native_ExecutorFinish s)),
     prev_ExecutorEnd = None,
     standard_ExecutorEnd = (\<lambda>qd s. (Returned, emit Native_ExecutorEnd s)) \<rparr>"

definition demo_state :: qflash_state where
  "demo_state = initial_state\<lparr>
     qflash_enabled_status := True,
     qflash_log_namespace_name := ''public'',
     qflash_log_rel_name := ''qflash_log'',
     qflash_log_hash := ''t1''\<rparr>"

definition demo_query :: "Oid list \<Rightarrow> QueryDesc" where
  "demo_query oids = \<lparr>operation = CMD_SELECT, sourceText = ''select 1'',
     relationOids = oids, totaltime = Some \<lparr>total = 1 / 2\<rparr>\<rparr>"

text \<open>An argument of \<^verbatim>\<open>qflash_init\<close> that is followed by a zero byte.\<close>

definition terminated_text :: "string \<Rightarrow> text_datum" where
  "terminated_text v = \<lparr>vardata = v, beyond = [CHR 0x00]\<rparr>"


text \<open>Two more sets of hooks: one whose native run step raises an error, and one whose
  native run step starts a nested execution that goes through the run hook again and
  raises there.\<close>

definition raising_hooks :: hooks where
  "raising_hooks = demo_hooks\<lparr>
     standard_ExecutorRun := (\<lambda>qd s. (Raised ''division by zero'', emit Native_ExecutorRun s)),
     standard_ExecutorFinish := (\<lambda>qd s. (Raised ''division by zero'', emit Native_ExecutorFinish s))\<rparr>"

definition nested_hooks :: hooks where
  "nested_hooks = demo_hooks\<lparr>
     standard_ExecutorRun := (\<lambda>qd s. explain_ExecutorRun raising_hooks qd (emit Native_ExecutorRun s)),
     standard_ExecutorFinish :=
       (\<lambda>qd s. explain_ExecutorFinish raising_hooks qd (emit Native_ExecutorFinish s))\<rparr>"

section \<open>Basic facts about sink resolution and eligibility\<close>

text \<open>The product of line 324 at the times used below: half a second is 500 ms, and the
  double nearest to 5 ms, taken times 1000, is rounded to 5.\<close>

lemma float8_mul_half_second: "float8_mul (1 / 2) 1000 = 500"
  by code_simp

lemma float8_mul_rounds:
  "float8_round (1 / 200) = 5764607523034235 / 2 ^ 60
   \<and> (5764607523034235 / 2 ^ 60) * 1000 \<noteq> (5 :: rat)
   \<and> float8_mul (5764607523034235 / 2 ^ 60) 1000 = 5"
  by code_simp

lemmas resolve_defs =
  get_qflash_log_rel_oid_def set_qflash_namespace_oid_def set_qflash_relname_oid_def

lemma get_qflash_log_rel_oid_result:
  "fst (get_qflash_log_rel_oid eng s) = qflash_log_rel_oid (snd (get_qflash_log_rel_oid eng s))"
  by (simp add: resolve_defs Let_def)

lemma get_qflash_log_rel_oid_frame:
  "snd (get_qflash_log_rel_oid eng s) =
     s\<lparr>qflash_log_namespace_oid := qflash_log_namespace_oid (snd (get_qflash_log_rel_oid eng s)),
       qflash_log_rel_oid := qflash_log_rel_oid (snd (get_qflash_log_rel_oid eng s))\<rparr>"
  by (simp add: resolve_defs Let_def)

lemma qflash_enabled_state:
  "snd (qflash_enabled eng qd s) = s \<or>
   snd (qflash_enabled eng qd s) = snd (get_qflash_log_rel_oid eng s)"
  by (simp add: qflash_enabled_def Let_def split: prod.splits)

lemma qflash_enabled_frame:
  "snd (qflash_enabled eng qd s) =
     s\<lparr>qflash_log_namespace_oid := qflash_log_namespace_oid (snd (qflash_enabled eng qd s)),
       qflash_log_rel_oid := qflash_log_rel_oid (snd (qflash_enabled eng qd s))\<rparr>"
proof -
  consider "snd (qflash_enabled eng qd s) = s"
    | "snd (qflash_enabled eng qd s) = snd (get_qflash_log_rel_oid eng s)"
    using qflash_enabled_state by blast
  then show ?thesis
  proof cases
    case 1
    then show ?thesis by simp
  next
    case 2
    then show ?thesis using get_qflash_log_rel_oid_frame [of eng s] by simp
  qed
qed

lemma qflash_enabled_True:
  assumes "qflash_enabled eng qd s = (True, s1)"
  shows "qflash_enabled_status s"
    and "nesting_level s = 0 \<or> qflash_log_nested s"
    and "s1 = snd (get_qflash_log_rel_oid eng s)"
    and "OidIsValid (qflash_log_rel_oid s1)"
    and "operation qd = CMD_SELECT \<or> operation qd = CMD_UPDATE
         \<or> operation qd = CMD_INSERT \<or> operation qd = CMD_DELETE"
    and "recursion_guard eng s1 (relationOids qd)"
  using assms get_qflash_log_rel_oid_result [of eng s]
  by (auto simp: qflash_enabled_def Let_def OidIsValid_def split: prod.splits if_splits)

lemma qflash_enabled_False_End:
  assumes "\<not> fst (qflash_enabled eng qd s)"
  shows "explain_ExecutorEnd hk eng qd s = delegate_ExecutorEnd hk qd (snd (qflash_enabled eng qd s))"
proof (cases "qflash_enabled eng qd s")
  case (Pair en s1)
  with assms show ?thesis by (simp add: explain_ExecutorEnd_def)
qed


lemmas demo_defs =
  demo_engine_def demo_hooks_def demo_state_def demo_query_def initial_state_def

lemmas eval_defs =
  qflash_enabled_def resolve_defs recursion_guard_def OidIsValid_def InvalidOid_def Let_def

section \<open>The eligibility decision\<close>

text \<open>
  Claim C1, as the code has it. \<^verbatim>\<open>qflash_enabled\<close> compares the first element of the
  touched-relation list only. It returns true only if the list is empty or its first element is
  neither the sink relation nor the type catalog; an execution with an empty list passes the
  guard whenever the other four conditions hold; and for an execution whose first touched
  relation is the sink relation the decision is false and the end hook does nothing but
  hand over to the previous or native handler, so that no record is written for it.
\<close>

theorem qflash_enabled_recursion_guard:
  "(fst (qflash_enabled eng queryDesc s) \<longrightarrow>
      relationOids queryDesc = [] \<or>
      (hd (relationOids queryDesc) \<noteq> qflash_log_rel_oid (snd (qflash_enabled eng queryDesc s))
       \<and> hd (relationOids queryDesc) \<noteq> TypeRelationId eng))
   \<and> (qflash_enabled_status s \<and> (nesting_level s = 0 \<or> qflash_log_nested s)
      \<and> fst (get_qflash_log_rel_oid eng s) \<noteq> InvalidOid
      \<and> operation queryDesc \<in> {CMD_SELECT, CMD_INSERT, CMD_UPDATE, CMD_DELETE}
      \<and> relationOids queryDesc = [] \<longrightarrow> fst (qflash_enabled eng queryDesc s))
   \<and> (relationOids queryDesc \<noteq> []
      \<and> hd (relationOids queryDesc) = qflash_log_rel_oid (snd (qflash_enabled eng queryDesc s)) \<longrightarrow>
        \<not> fst (qflash_enabled eng queryDesc s)
        \<and> explain_ExecutorEnd hk eng queryDesc s =
            delegate_ExecutorEnd hk queryDesc (snd (qflash_enabled eng queryDesc s)))"
proof -
  have g: "relationOids queryDesc = [] \<or>
      (hd (relationOids queryDesc) \<noteq> qflash_log_rel_oid (snd (qflash_enabled eng queryDesc s))
       \<and> hd (relationOids queryDesc) \<noteq> TypeRelationId eng)"
    if "fst (qflash_enabled eng queryDesc s)"
  proof -
    from that have "qflash_enabled eng queryDesc s = (True, snd (qflash_enabled eng queryDesc s))"
      by (metis prod.collapse)
    from qflash_enabled_True(6) [OF this] show ?thesis
      by (auto simp: recursion_guard_def)
  qed
  have e: "fst (qflash_enabled eng queryDesc s)"
    if "qflash_enabled_status s" "nesting_level s = 0 \<or> qflash_log_nested s"
       "fst (get_qflash_log_rel_oid eng s) \<noteq> InvalidOid"
       "operation queryDesc \<in> {CMD_SELECT, CMD_INSERT, CMD_UPDATE, CMD_DELETE}"
       "relationOids queryDesc = []"
    using that
    by (auto simp: qflash_enabled_def recursion_guard_def Let_def split: prod.splits)
  have n: "\<not> fst (qflash_enabled eng queryDesc s)"
    if "relationOids queryDesc \<noteq> []"
       "hd (relationOids queryDesc) = qflash_log_rel_oid (snd (qflash_enabled eng queryDesc s))"
    using g that by blast
  from g e n qflash_enabled_False_End show ?thesis by blast
qed

text \<open>The theorem at three executions of the concrete session: one that touches another
  table, one that touches nothing, and the logger's own kind of statement, whose first
  touched relation is the sink.\<close>

theorem qflash_enabled_recursion_guard_witness:
  "fst (qflash_enabled demo_engine (demo_query [16385]) demo_state)
   \<and> hd (relationOids (demo_query [16385])) \<noteq> 16384
   \<and> fst (qflash_enabled demo_engine (demo_query []) demo_state)
   \<and> \<not> fst (qflash_enabled demo_engine (demo_query [16384, 16385]) demo_state)
   \<and> explain_ExecutorEnd demo_hooks demo_engine (demo_query [16384, 16385]) demo_state =
       (Returned, (emit Native_ExecutorEnd demo_state)
          \<lparr>qflash_log_namespace_oid := 2200, qflash_log_rel_oid := 16384\<rparr>)"
proof -
  have a: "fst (qflash_enabled demo_engine (demo_query [16385]) demo_state)"
    by (simp add: eval_defs demo_defs)
  have b: "qflash_enabled_status demo_state \<and> (nesting_level demo_state = 0 \<or> qflash_log_nested demo_state)
      \<and> fst (get_qflash_log_rel_oid demo_engine demo_state) \<noteq> InvalidOid
      \<and> operation (demo_query []) \<in> {CMD_SELECT, CMD_INSERT, CMD_UPDATE, CMD_DELETE}
      \<and> relationOids (demo_query []) = []"
    by (simp add: eval_defs demo_defs)
  have c: "qflash_enabled demo_engine (demo_query [16384, 16385]) demo_state =
     (False, demo_state\<lparr>qflash_log_namespace_oid := 2200, qflash_log_rel_oid := 16384\<rparr>)"
    by (simp add: eval_defs demo_defs)
  have d: "relationOids (demo_query [16384, 16385]) \<noteq> []
      \<and> hd (relationOids (demo_query [16384, 16385])) =
          qflash_log_rel_oid (snd (qflash_enabled demo_engine (demo_query [16384, 16385]) demo_state))"
    unfolding c by (simp add: demo_defs)
  have x: "delegate_ExecutorEnd demo_hooks (demo_query [16384, 16385])
       (demo_state\<lparr>qflash_log_namespace_oid := 2200, qflash_log_rel_oid := 16384\<rparr>) =
       (Returned, (emit Native_ExecutorEnd demo_state)
          \<lparr>qflash_log_namespace_oid := 2200, qflash_log_rel_oid := 16384\<rparr>)"
    by (simp add: delegate_ExecutorEnd_def emit_def demo_defs)
  show ?thesis
    using qflash_enabled_recursion_guard [of demo_engine "demo_query [16385]" demo_state demo_hooks]
      qflash_enabled_recursion_guard [of demo_engine "demo_query []" demo_state demo_hooks]
      qflash_enabled_recursion_guard [of demo_engine "demo_query [16384, 16385]" demo_state demo_hooks]
      a b c d x
    by (simp add: demo_query_def)
qed

text \<open>Claim C1 as it is written speaks of the whole set. A query that touches another
  table first and the sink relation second is eligible, and one record is written for it.\<close>

theorem qflash_enabled_recursion_guard_counterexample:
  "fst (qflash_enabled demo_engine (demo_query [16385, 16384]) demo_state)
   \<and> qflash_log_rel_oid (snd (qflash_enabled demo_engine (demo_query [16385, 16384]) demo_state))
       \<in> set (relationOids (demo_query [16385, 16384]))
   \<and> length (log_records (snd (explain_ExecutorEnd demo_hooks demo_engine
        (demo_query [16385, 16384]) demo_state))) = 1"
  by (simp add: eval_defs demo_defs explain_ExecutorEnd_def render_plan_def
      remove_last_line_break_def LF_def log_InRelation_def log_execute_def
      generate_insert_log_query_def delegate_ExecutorEnd_def emit_def log_records_def
      float8_mul_half_second)

text \<open>
  Where the cached pair is consistent before the call, \<^verbatim>\<open>qflash_enabled\<close> returns true only
  if the enabled flag is set, the nesting level is 0 or nested logging is on, both cached
  sink identifiers are valid after the lazy resolution, and the operation is one of select,
  insert, update and delete.
\<close>

lemma qflash_enabled_True_paired:
  assumes en: "qflash_enabled eng queryDesc s = (True, s')"
    and p: "sink_ids_paired s"
  shows "qflash_enabled_status s
       \<and> (nesting_level s = 0 \<or> qflash_log_nested s)
       \<and> OidIsValid (qflash_log_namespace_oid s')
       \<and> OidIsValid (qflash_log_rel_oid s')
       \<and> operation queryDesc \<in> {CMD_SELECT, CMD_INSERT, CMD_UPDATE, CMD_DELETE}"
proof -
  note e = qflash_enabled_True [OF en]
  have r: "s' = snd (get_qflash_log_rel_oid eng s)" by (rule e(3))
  have v: "OidIsValid (qflash_log_rel_oid s')" by (rule e(4))
  have "OidIsValid (qflash_log_namespace_oid s')"
    using v p unfolding r
    by (auto simp: resolve_defs sink_ids_paired_def Let_def split: if_splits)
  with e(1) e(2) v e(5) show ?thesis by blast
qed

text \<open>
  Claim C5 at a concrete session. A first select resolves the sink: both identifiers are
  valid.
  Then the namespace name is changed to a name that does not exist. The check hook refuses
  the name, but \<^verbatim>\<open>set_qflash_namespace_oid\<close> has already stored the failed lookup in the
  namespace identifier (lines 155-156) and has left the relation identifier cached, so the
  pair that line 164 and lines 207-208 keep together is broken. For the next select
  \<^verbatim>\<open>qflash_enabled\<close> returns true although the namespace identifier is not valid.
\<close>

theorem qflash_enabled_unset_namespace_oid:
  "OidIsValid (qflash_log_namespace_oid (snd (qflash_enabled demo_engine (demo_query []) demo_state)))
   \<and> OidIsValid (qflash_log_rel_oid (snd (qflash_enabled demo_engine (demo_query []) demo_state)))
   \<and> \<not> fst (namespace_GucCheck demo_engine ''nope''
           (snd (qflash_enabled demo_engine (demo_query []) demo_state)))
   \<and> OidIsValid (qflash_log_rel_oid (snd (namespace_GucCheck demo_engine ''nope''
           (snd (qflash_enabled demo_engine (demo_query []) demo_state)))))
   \<and> \<not> OidIsValid (qflash_log_namespace_oid (snd (namespace_GucCheck demo_engine ''nope''
           (snd (qflash_enabled demo_engine (demo_query []) demo_state)))))
   \<and> fst (qflash_enabled demo_engine (demo_query [])
           (snd (namespace_GucCheck demo_engine ''nope''
              (snd (qflash_enabled demo_engine (demo_query []) demo_state)))))
   \<and> \<not> OidIsValid (qflash_log_namespace_oid (snd (qflash_enabled demo_engine (demo_query [])
           (snd (namespace_GucCheck demo_engine ''nope''
              (snd (qflash_enabled demo_engine (demo_query []) demo_state)))))))"
  by (simp add: eval_defs demo_defs namespace_GucCheck_def)

section \<open>The end-of-execution hook\<close>

lemma log_execute_effect:
  "\<exists>xs. calls (snd (log_execute eng q v n s)) = calls s @ xs
      \<and> SPI_push \<notin> set xs \<and> SPI_pop \<notin> set xs \<and> SPI_connect \<notin> set xs
      \<and> filter is_log_record xs = (if SPI_prepare_ok eng then [SPI_execute_plan q v n] else [])"
  by (simp add: log_execute_def emit_def Let_def)

lemma log_execute_levels:
  "nesting_level (snd (log_execute eng q v n s)) = nesting_level s
   \<and> nesting_spi_level (snd (log_execute eng q v n s)) = nesting_spi_level s"
  by (simp add: log_execute_def emit_def Let_def)

lemma render_plan_result:
  "render_plan eng qd =
     Some ((NewExplainState eng)\<lparr>analyze := True, verbose := True, buffers := True,
        timing := True, summary := True, format := EXPLAIN_FORMAT_TEXT,
        str := remove_last_line_break (ExplainOutput eng
          ((NewExplainState eng)\<lparr>analyze := True, verbose := True, buffers := True,
             timing := True, summary := True, format := EXPLAIN_FORMAT_TEXT\<rparr>) qd)\<rparr>)"
  by (simp add: render_plan_def Let_def)

lemma qflash_enabled_min_duration:
  "qflash_log_min_duration (snd (qflash_enabled eng qd s)) = qflash_log_min_duration s"
  "qflash_log_hash (snd (qflash_enabled eng qd s)) = qflash_log_hash s"
  "calls (snd (qflash_enabled eng qd s)) = calls s"
  "nesting_level (snd (qflash_enabled eng qd s)) = nesting_level s"
  "nesting_spi_level (snd (qflash_enabled eng qd s)) = nesting_spi_level s"
  by (subst qflash_enabled_frame, simp)+

lemma log_InRelation_records:
  assumes "totaltime qd = Some instr" "SPI_connect_ok eng" "SPI_prepare_ok eng"
  shows "\<exists>q nulls. log_records (snd (log_InRelation eng es qd s)) =
     log_records s @ [SPI_execute_plan q
        [TextDatum (sourceText qd), TextDatum (str es),
         Float8Datum (float8_mul (total instr) 1000), TextDatum (qflash_log_hash s)] nulls]"
  using assms
  by (simp add: log_InRelation_def generate_insert_log_query_def log_execute_def emit_def
      log_records_def Let_def)

lemma log_InRelation_returns:
  assumes "totaltime qd = Some instr" "SPI_connect_ok eng" "SPI_prepare_ok eng"
    "0 < SPI_execute_plan_res eng" "SPI_finish_ok eng"
  shows "fst (log_InRelation eng es qd s) = Returned"
  using assms
  by (simp add: log_InRelation_def generate_insert_log_query_def log_execute_def emit_def
      Let_def)

lemma explain_ExecutorEnd_slow:
  assumes en: "fst (qflash_enabled eng qd s)"
    and tt: "totaltime qd = Some instr"
    and d: "qflash_log_min_duration s < float8_mul (total (InstrEndLoop eng instr)) 1000"
  shows "\<exists>es. render_plan eng (qd\<lparr>totaltime := Some (InstrEndLoop eng instr)\<rparr>) = Some es
     \<and> explain_ExecutorEnd hk eng qd s =
        (let qd1 = qd\<lparr>totaltime := Some (InstrEndLoop eng instr)\<rparr>;
             (r, s2) = log_InRelation eng es qd1 (snd (qflash_enabled eng qd s))
         in if r = Returned then delegate_ExecutorEnd hk qd1 s2 else (r, s2))"
proof (cases "qflash_enabled eng qd s")
  case (Pair b s1)
  with en have b: "b" by simp
  have m: "qflash_log_min_duration s1 = qflash_log_min_duration s"
    using qflash_enabled_min_duration(1) [of eng qd s] Pair by simp
  define qd1 where "qd1 = qd\<lparr>totaltime := Some (InstrEndLoop eng instr)\<rparr>"
  obtain es where rp: "render_plan eng qd1 = Some es"
    by (simp add: render_plan_result)
  obtain r s2 where l: "log_InRelation eng es qd1 s1 = (r, s2)"
    by (cases "log_InRelation eng es qd1 s1") blast
  have "explain_ExecutorEnd hk eng qd s =
        (if r = Returned then delegate_ExecutorEnd hk qd1 s2 else (r, s2))"
    using Pair b tt d m l rp
    by (cases r) (simp_all add: explain_ExecutorEnd_def Let_def qd1_def [symmetric])
  then show ?thesis
    using rp l Pair by (auto simp: Let_def qd1_def [symmetric])
qed

lemma explain_ExecutorEnd_fast:
  assumes en: "fst (qflash_enabled eng qd s)"
    and tt: "totaltime qd = Some instr"
    and d: "float8_mul (total (InstrEndLoop eng instr)) 1000 \<le> qflash_log_min_duration s"
  shows "explain_ExecutorEnd hk eng qd s = (Returned, snd (qflash_enabled eng qd s))"
proof (cases "qflash_enabled eng qd s")
  case (Pair b s1)
  with en have b: "b" by simp
  have m: "qflash_log_min_duration s1 = qflash_log_min_duration s"
    using qflash_enabled_min_duration(1) [of eng qd s] Pair by simp
  show ?thesis
    using Pair b tt d m by (simp add: explain_ExecutorEnd_def Let_def)
qed

lemmas run_defs =
  explain_ExecutorEnd_def render_plan_def remove_last_line_break_def LF_def
  log_InRelation_def log_execute_def generate_insert_log_query_def
  delegate_ExecutorEnd_def emit_def log_records_def float8_mul_half_second

text \<open>
  Claim C2 at a concrete execution. With a threshold of 1000 ms an eligible select measured
  at 500 ms makes the end hook return through line 325: the native \<^verbatim>\<open>ExecutorEnd\<close> is
  not called. The same select with a threshold of 400 ms, and a select that is not eligible,
  both reach it.
\<close>

theorem explain_ExecutorEnd_early_return_skips_delegate:
  "fst (qflash_enabled demo_engine (demo_query []) (demo_state\<lparr>qflash_log_min_duration := 1000\<rparr>))
   \<and> fst (explain_ExecutorEnd demo_hooks demo_engine (demo_query [])
         (demo_state\<lparr>qflash_log_min_duration := 1000\<rparr>)) = Returned
   \<and> Native_ExecutorEnd \<notin> set (calls (snd (explain_ExecutorEnd demo_hooks demo_engine (demo_query [])
         (demo_state\<lparr>qflash_log_min_duration := 1000\<rparr>))))
   \<and> Native_ExecutorEnd \<in> set (calls (snd (explain_ExecutorEnd demo_hooks demo_engine (demo_query [])
         (demo_state\<lparr>qflash_log_min_duration := 400\<rparr>))))
   \<and> Native_ExecutorEnd \<in> set (calls (snd (explain_ExecutorEnd demo_hooks demo_engine
         (demo_query [16384]) (demo_state\<lparr>qflash_log_min_duration := 1000\<rparr>))))"
  by (simp add: eval_defs demo_defs run_defs)

text \<open>
  Claim C3, as the code has it. Line 324 compares with \<^verbatim>\<open><=\<close>. For an eligible execution
  with a handle, \<open>t\<close> is the product \<^verbatim>\<open>total * 1000.0\<close> that the code computes after
  \<^verbatim>\<open>InstrEndLoop\<close>. When \<open>t\<close> is at most the threshold the hook writes no record. When
  \<open>t\<close> is above the threshold and the four SPI calls of the persistence succeed (connect,
  prepare, execute and finish), \<^verbatim>\<open>log_InRelation\<close> returns, exactly one record has been
  written (the query text, the rendered plan, \<open>t\<close> and the tag), and the hook hands over to
  the previous or native handler.
\<close>

theorem explain_ExecutorEnd_duration_filter:
  assumes en: "fst (qflash_enabled eng queryDesc s)"
    and tt: "totaltime queryDesc = Some instr"
    and t: "t = float8_mul (total (InstrEndLoop eng instr)) 1000"
  shows "(t \<le> qflash_log_min_duration s \<longrightarrow>
            log_records (snd (explain_ExecutorEnd hk eng queryDesc s)) = log_records s)
       \<and> (qflash_log_min_duration s < t
          \<and> SPI_connect_ok eng \<and> SPI_prepare_ok eng
          \<and> 0 < SPI_execute_plan_res eng \<and> SPI_finish_ok eng \<longrightarrow>
            (\<exists>es s2 q nulls.
               render_plan eng (queryDesc\<lparr>totaltime := Some (InstrEndLoop eng instr)\<rparr>) = Some es
               \<and> log_InRelation eng es (queryDesc\<lparr>totaltime := Some (InstrEndLoop eng instr)\<rparr>)
                    (snd (qflash_enabled eng queryDesc s)) = (Returned, s2)
               \<and> log_records s2 = log_records s @
                    [SPI_execute_plan q
                       [TextDatum (sourceText queryDesc), TextDatum (str es),
                        Float8Datum t, TextDatum (qflash_log_hash s)] nulls]
               \<and> explain_ExecutorEnd hk eng queryDesc s =
                    delegate_ExecutorEnd hk
                      (queryDesc\<lparr>totaltime := Some (InstrEndLoop eng instr)\<rparr>) s2))"
proof (intro conjI impI)
  assume "t \<le> qflash_log_min_duration s"
  then have "explain_ExecutorEnd hk eng queryDesc s = (Returned, snd (qflash_enabled eng queryDesc s))"
    using explain_ExecutorEnd_fast [OF en tt] t by simp
  then show "log_records (snd (explain_ExecutorEnd hk eng queryDesc s)) = log_records s"
    by (simp add: log_records_def qflash_enabled_min_duration)
next
  let ?qd = "queryDesc\<lparr>totaltime := Some (InstrEndLoop eng instr)\<rparr>"
  let ?s1 = "snd (qflash_enabled eng queryDesc s)"
  assume a: "qflash_log_min_duration s < t
          \<and> SPI_connect_ok eng \<and> SPI_prepare_ok eng
          \<and> 0 < SPI_execute_plan_res eng \<and> SPI_finish_ok eng"
  then have d: "qflash_log_min_duration s < float8_mul (total (InstrEndLoop eng instr)) 1000"
    using t by simp
  from explain_ExecutorEnd_slow [OF en tt d, of hk]
  obtain es where rp: "render_plan eng ?qd = Some es"
    and e: "explain_ExecutorEnd hk eng queryDesc s =
        (let (r, s2) = log_InRelation eng es ?qd ?s1
         in if r = Returned then delegate_ExecutorEnd hk ?qd s2 else (r, s2))"
    by (auto simp: Let_def)
  have h: "totaltime ?qd = Some (InstrEndLoop eng instr)" by simp
  from log_InRelation_returns [OF h, of eng es ?s1] a
  have "fst (log_InRelation eng es ?qd ?s1) = Returned" by blast
  then obtain s2 where l: "log_InRelation eng es ?qd ?s1 = (Returned, s2)"
    by (cases "log_InRelation eng es ?qd ?s1") auto
  from log_InRelation_records [OF h, of eng es ?s1] a
  obtain q nulls where "log_records (snd (log_InRelation eng es ?qd ?s1)) =
     log_records ?s1 @ [SPI_execute_plan q
        [TextDatum (sourceText ?qd), TextDatum (str es),
         Float8Datum (float8_mul (total (InstrEndLoop eng instr)) 1000),
         TextDatum (qflash_log_hash ?s1)] nulls]"
    by blast
  then have rec: "log_records s2 = log_records s @ [SPI_execute_plan q
        [TextDatum (sourceText queryDesc), TextDatum (str es),
         Float8Datum t, TextDatum (qflash_log_hash s)] nulls]"
    using l t by (simp add: log_records_def qflash_enabled_min_duration)
  from e l have "explain_ExecutorEnd hk eng queryDesc s = delegate_ExecutorEnd hk ?qd s2"
    by simp
  with rp l rec show "\<exists>es s2 q nulls.
               render_plan eng ?qd = Some es
               \<and> log_InRelation eng es ?qd ?s1 = (Returned, s2)
               \<and> log_records s2 = log_records s @
                    [SPI_execute_plan q
                       [TextDatum (sourceText queryDesc), TextDatum (str es),
                        Float8Datum t, TextDatum (qflash_log_hash s)] nulls]
               \<and> explain_ExecutorEnd hk eng queryDesc s = delegate_ExecutorEnd hk ?qd s2"
    by blast
qed

text \<open>The theorem at a select measured at 500 ms, below a threshold of 600 ms and above a
  threshold of 400 ms.\<close>

theorem explain_ExecutorEnd_duration_filter_witness:
  "fst (qflash_enabled demo_engine (demo_query []) (demo_state\<lparr>qflash_log_min_duration := 600\<rparr>))
   \<and> float8_mul (total (InstrEndLoop demo_engine \<lparr>total = 1 / 2\<rparr>)) 1000 \<le> (600 :: rat)
   \<and> log_records (snd (explain_ExecutorEnd demo_hooks demo_engine (demo_query [])
         (demo_state\<lparr>qflash_log_min_duration := 600\<rparr>))) = []
   \<and> fst (qflash_enabled demo_engine (demo_query []) (demo_state\<lparr>qflash_log_min_duration := 400\<rparr>))
   \<and> (400 :: rat) < float8_mul (total (InstrEndLoop demo_engine \<lparr>total = 1 / 2\<rparr>)) 1000
   \<and> SPI_connect_ok demo_engine \<and> SPI_prepare_ok demo_engine
   \<and> 0 < SPI_execute_plan_res demo_engine \<and> SPI_finish_ok demo_engine
   \<and> length (log_records (snd (explain_ExecutorEnd demo_hooks demo_engine (demo_query [])
         (demo_state\<lparr>qflash_log_min_duration := 400\<rparr>)))) = 1"
proof -
  have tt: "totaltime (demo_query []) = Some \<lparr>total = 1 / 2\<rparr>"
    by (simp add: demo_query_def)
  have t: "(500 :: rat) = float8_mul (total (InstrEndLoop demo_engine \<lparr>total = 1 / 2\<rparr>)) 1000"
    by (simp add: demo_engine_def float8_mul_half_second)
  have a: "fst (qflash_enabled demo_engine (demo_query []) (demo_state\<lparr>qflash_log_min_duration := 600\<rparr>))"
    by (simp add: eval_defs demo_defs)
  have b: "fst (qflash_enabled demo_engine (demo_query []) (demo_state\<lparr>qflash_log_min_duration := 400\<rparr>))"
    by (simp add: eval_defs demo_defs)
  have c: "SPI_connect_ok demo_engine \<and> SPI_prepare_ok demo_engine
      \<and> 0 < SPI_execute_plan_res demo_engine \<and> SPI_finish_ok demo_engine"
    by (simp add: demo_engine_def)
  have "500 \<le> qflash_log_min_duration (demo_state\<lparr>qflash_log_min_duration := 600\<rparr>)"
    by simp
  with explain_ExecutorEnd_duration_filter [OF a tt t, of demo_hooks]
  have "log_records (snd (explain_ExecutorEnd demo_hooks demo_engine (demo_query [])
         (demo_state\<lparr>qflash_log_min_duration := 600\<rparr>))) =
        log_records (demo_state\<lparr>qflash_log_min_duration := 600\<rparr>)"
    by blast
  then have fast: "log_records (snd (explain_ExecutorEnd demo_hooks demo_engine (demo_query [])
         (demo_state\<lparr>qflash_log_min_duration := 600\<rparr>))) = []"
    by (simp add: log_records_def demo_state_def initial_state_def)
  have prem: "qflash_log_min_duration (demo_state\<lparr>qflash_log_min_duration := 400\<rparr>) < 500
      \<and> SPI_connect_ok demo_engine \<and> SPI_prepare_ok demo_engine
      \<and> 0 < SPI_execute_plan_res demo_engine \<and> SPI_finish_ok demo_engine"
    using c by simp
  from explain_ExecutorEnd_duration_filter [OF b tt t, of demo_hooks, THEN conjunct2,
      rule_format, OF prem]
  obtain es s2 q nulls where
    rp: "render_plan demo_engine ((demo_query [])\<lparr>totaltime :=
          Some (InstrEndLoop demo_engine \<lparr>total = 1 / 2\<rparr>)\<rparr>) = Some es"
    and l: "log_InRelation demo_engine es ((demo_query [])\<lparr>totaltime :=
          Some (InstrEndLoop demo_engine \<lparr>total = 1 / 2\<rparr>)\<rparr>)
          (snd (qflash_enabled demo_engine (demo_query [])
             (demo_state\<lparr>qflash_log_min_duration := 400\<rparr>))) = (Returned, s2)"
    and one: "log_records s2 = log_records (demo_state\<lparr>qflash_log_min_duration := 400\<rparr>) @
          [SPI_execute_plan q
             [TextDatum (sourceText (demo_query [])), TextDatum (str es),
              Float8Datum 500,
              TextDatum (qflash_log_hash (demo_state\<lparr>qflash_log_min_duration := 400\<rparr>))]
             nulls]"
    and e: "explain_ExecutorEnd demo_hooks demo_engine (demo_query [])
          (demo_state\<lparr>qflash_log_min_duration := 400\<rparr>) =
        delegate_ExecutorEnd demo_hooks ((demo_query [])\<lparr>totaltime :=
                Some (InstrEndLoop demo_engine \<lparr>total = 1 / 2\<rparr>)\<rparr>) s2"
    by (elim exE conjE) (rule that, assumption+)
  have "length (log_records s2) = 1"
    unfolding one by (simp add: log_records_def demo_state_def initial_state_def)
  then have slow: "length (log_records (snd (explain_ExecutorEnd demo_hooks demo_engine (demo_query [])
         (demo_state\<lparr>qflash_log_min_duration := 400\<rparr>)))) = 1"
    unfolding e
    by (simp add: delegate_ExecutorEnd_def demo_hooks_def emit_def log_records_def)
  from a b c fast slow t show ?thesis by simp
qed

text \<open>Claim C3 as it is written promises one record at \<open>t = D\<close>. A select that took half a
  second, for which the code computes 500 ms, writes none with a threshold of 500 ms.\<close>

theorem explain_ExecutorEnd_duration_filter_counterexample:
  "fst (qflash_enabled demo_engine (demo_query []) (demo_state\<lparr>qflash_log_min_duration := 500\<rparr>))
   \<and> float8_mul (total (the (totaltime (demo_query [])))) 1000 \<ge>
       qflash_log_min_duration (demo_state\<lparr>qflash_log_min_duration := 500\<rparr>)
   \<and> log_records (snd (explain_ExecutorEnd demo_hooks demo_engine (demo_query [])
         (demo_state\<lparr>qflash_log_min_duration := 500\<rparr>))) = []"
  by (simp add: eval_defs demo_defs run_defs)

text \<open>
  Claim C10. The plan of every logged execution is printed with the format field set to
  text: \<^verbatim>\<open>render_plan\<close> always yields a printer state, its format is text, the printer was
  called with the format text, and the text it yields is the printer's output after the
  line-break removal only. The branch that rewrites the first and last character is never
  taken, and the record that \<^verbatim>\<open>log_InRelation\<close> writes carries exactly this text.
\<close>

theorem render_plan_text_format:
  "\<exists>es. render_plan eng queryDesc = Some es
     \<and> format es = EXPLAIN_FORMAT_TEXT
     \<and> str es = remove_last_line_break
          (ExplainOutput eng (es\<lparr>str := str (NewExplainState eng)\<rparr>) queryDesc)
     \<and> format (es\<lparr>str := str (NewExplainState eng)\<rparr>) = EXPLAIN_FORMAT_TEXT
     \<and> (\<forall>instr s. totaltime queryDesc = Some instr \<and> SPI_connect_ok eng \<and> SPI_prepare_ok eng \<longrightarrow>
          (\<exists>q a t h nulls. log_records (snd (log_InRelation eng es queryDesc s)) =
             log_records s @ [SPI_execute_plan q
               [a, TextDatum (remove_last_line_break
                  (ExplainOutput eng (es\<lparr>str := str (NewExplainState eng)\<rparr>) queryDesc)), t, h] nulls]))"
proof -
  let ?es6 = "(NewExplainState eng)\<lparr>analyze := True, verbose := True, buffers := True,
             timing := True, summary := True, format := EXPLAIN_FORMAT_TEXT\<rparr>"
  let ?es = "?es6\<lparr>str := remove_last_line_break (ExplainOutput eng ?es6 queryDesc)\<rparr>"
  have rp: "render_plan eng queryDesc = Some ?es"
    by (simp add: render_plan_result)
  have es_in: "?es\<lparr>str := str (NewExplainState eng)\<rparr> = ?es6"
    by simp
  have rec: "\<exists>q a t h nulls. log_records (snd (log_InRelation eng ?es queryDesc s)) =
             log_records s @ [SPI_execute_plan q
               [a, TextDatum (remove_last_line_break (ExplainOutput eng ?es6 queryDesc)), t, h] nulls]"
    if "totaltime queryDesc = Some instr" "SPI_connect_ok eng" "SPI_prepare_ok eng" for instr s
    using log_InRelation_records [OF that, of ?es s] by auto
  show ?thesis
    apply (rule exI [of _ ?es])
    unfolding es_in
    using rp rec by simp
qed

text \<open>The theorem at the concrete session: the printed line loses its line feed and
  nothing else.\<close>

theorem render_plan_text_format_witness:
  "totaltime (demo_query []) = Some \<lparr>total = 1 / 2\<rparr>
   \<and> SPI_connect_ok demo_engine \<and> SPI_prepare_ok demo_engine
   \<and> (\<exists>es. render_plan demo_engine (demo_query []) = Some es
         \<and> format es = EXPLAIN_FORMAT_TEXT \<and> str es = ''Seq Scan on t''
         \<and> (\<exists>q a t h nulls. log_records (snd (log_InRelation demo_engine es (demo_query []) demo_state)) =
               [SPI_execute_plan q [a, TextDatum ''Seq Scan on t'', t, h] nulls]))"
proof -
  have tt: "totaltime (demo_query []) = Some \<lparr>total = 1 / 2\<rparr>"
    by (simp add: demo_query_def)
  have c: "SPI_connect_ok demo_engine \<and> SPI_prepare_ok demo_engine"
    by (simp add: demo_engine_def)
  have out: "remove_last_line_break (ExplainOutput demo_engine es0 (demo_query [])) = ''Seq Scan on t''"
    for es0
    by (simp add: demo_engine_def remove_last_line_break_def LF_def)
  have n: "log_records demo_state = []"
    by (simp add: log_records_def demo_state_def initial_state_def)
  from render_plan_text_format [of demo_engine "demo_query []"]
  obtain es where rp: "render_plan demo_engine (demo_query []) = Some es"
    and f: "format es = EXPLAIN_FORMAT_TEXT"
    and s: "str es = remove_last_line_break
          (ExplainOutput demo_engine (es\<lparr>str := str (NewExplainState demo_engine)\<rparr>) (demo_query []))"
    and r: "\<forall>instr s. totaltime (demo_query []) = Some instr
          \<and> SPI_connect_ok demo_engine \<and> SPI_prepare_ok demo_engine \<longrightarrow>
          (\<exists>q a t h nulls. log_records (snd (log_InRelation demo_engine es (demo_query []) s)) =
             log_records s @ [SPI_execute_plan q
               [a, TextDatum (remove_last_line_break
                  (ExplainOutput demo_engine (es\<lparr>str := str (NewExplainState demo_engine)\<rparr>)
                     (demo_query []))), t, h] nulls])"
    by blast
  from r tt c have "\<exists>q a t h nulls.
      log_records (snd (log_InRelation demo_engine es (demo_query []) demo_state)) =
        log_records demo_state @ [SPI_execute_plan q
          [a, TextDatum (remove_last_line_break
             (ExplainOutput demo_engine (es\<lparr>str := str (NewExplainState demo_engine)\<rparr>)
                (demo_query []))), t, h] nulls]"
    by blast
  then have rec: "\<exists>q a t h nulls.
      log_records (snd (log_InRelation demo_engine es (demo_query []) demo_state)) =
        [SPI_execute_plan q [a, TextDatum ''Seq Scan on t'', t, h] nulls]"
    unfolding out n by simp
  from s have "str es = ''Seq Scan on t''"
    unfolding out .
  with rp f rec tt c show ?thesis
    by blast
qed

section \<open>The persistence bridge\<close>

lemma sint_neither_less:
  fixes a b :: "32 word"
  shows "\<not> sint a < sint b \<Longrightarrow> \<not> sint b < sint a \<Longrightarrow> a = b"
  by (rule signed_word_eqI [where ?'a = int]) simp

text \<open>
  Claim C6, as the code has it. The push is a statement of its own, followed by the
  pop-or-connect alternative. When the connection level is below the execution level the
  scope is pushed, the level is stored and a connection is established as well; when it is
  above, the scope is popped, the level is stored and no connection is established; when the
  levels are equal a connection is established and nothing is pushed or popped. Nothing
  else that follows in the call pushes, pops or connects, and after the call the connection
  level equals the execution level, which is unchanged.
\<close>

theorem log_InRelation_connection_stacking:
  assumes tt: "totaltime queryDesc = Some instr"
  shows "\<exists>rest.
      calls (snd (log_InRelation eng es queryDesc s)) =
        calls s @
        (if sint (nesting_spi_level s) < sint (nesting_level s) then [SPI_push, SPI_connect]
         else if sint (nesting_level s) < sint (nesting_spi_level s) then [SPI_pop]
         else [SPI_connect]) @ rest
      \<and> SPI_push \<notin> set rest \<and> SPI_pop \<notin> set rest \<and> SPI_connect \<notin> set rest
      \<and> nesting_spi_level (snd (log_InRelation eng es queryDesc s)) =
          nesting_level (snd (log_InRelation eng es queryDesc s))
      \<and> nesting_level (snd (log_InRelation eng es queryDesc s)) = nesting_level s"
proof -
  obtain q where q: "generate_insert_log_query s = Some q"
    by (simp add: generate_insert_log_query_def)
  let ?nulls = "[CHR '' '', CHR '' '', CHR '' '',
                 (if length (qflash_log_hash s) \<noteq> 0 then CHR '' '' else CHR ''n'')]"
  let ?vals = "[TextDatum (sourceText queryDesc), TextDatum (str es),
                Float8Datum (float8_mul (total instr) 1000), TextDatum (qflash_log_hash s)]"
  have ex: "\<exists>xs. calls (snd (log_execute eng q ?vals ?nulls s0)) = calls s0 @ xs
      \<and> SPI_push \<notin> set xs \<and> SPI_pop \<notin> set xs \<and> SPI_connect \<notin> set xs" for s0
    using log_execute_effect [of eng q ?vals ?nulls s0] by blast
  note lv = log_execute_levels [of eng q ?vals ?nulls]
  consider (push) "sint (nesting_spi_level s) < sint (nesting_level s)"
    | (pop) "sint (nesting_level s) < sint (nesting_spi_level s)"
    | (same) "\<not> sint (nesting_spi_level s) < sint (nesting_level s)"
             "\<not> sint (nesting_level s) < sint (nesting_spi_level s)"
    by linarith
  then show ?thesis
  proof cases
    case push
    let ?s2 = "emit SPI_connect ((emit SPI_push s)\<lparr>nesting_spi_level := nesting_level s\<rparr>)"
    have l: "log_InRelation eng es queryDesc s =
        (if \<not> SPI_connect_ok eng then (Raised ''SPI_connect failed'', ?s2)
         else log_execute eng q ?vals ?nulls ?s2)"
      using tt q push by (simp add: log_InRelation_def Let_def emit_def)
    show ?thesis
    proof (cases "SPI_connect_ok eng")
      case True
      from ex [of ?s2] obtain xs where
        "calls (snd (log_execute eng q ?vals ?nulls ?s2)) = calls ?s2 @ xs"
        "SPI_push \<notin> set xs" "SPI_pop \<notin> set xs" "SPI_connect \<notin> set xs"
        by blast
      then show ?thesis
        using l True push lv [of ?s2] by (intro exI [of _ xs]) (simp add: emit_def)
    next
      case False
      then show ?thesis
        using l push by (intro exI [of _ "[]"]) (simp add: emit_def)
    qed
  next
    case pop
    let ?s2 = "(emit SPI_pop s)\<lparr>nesting_spi_level := nesting_level s\<rparr>"
    have np: "\<not> sint (nesting_spi_level s) < sint (nesting_level s)"
      using pop by simp
    have l: "log_InRelation eng es queryDesc s = log_execute eng q ?vals ?nulls ?s2"
      using tt q pop np by (simp add: log_InRelation_def Let_def emit_def)
    from ex [of ?s2] obtain xs where
      "calls (snd (log_execute eng q ?vals ?nulls ?s2)) = calls ?s2 @ xs"
      "SPI_push \<notin> set xs" "SPI_pop \<notin> set xs" "SPI_connect \<notin> set xs"
      by blast
    then show ?thesis
      using l pop np lv [of ?s2] by (intro exI [of _ xs]) (simp add: emit_def)
  next
    case same
    let ?s2 = "emit SPI_connect s"
    have eq: "nesting_spi_level s = nesting_level s"
      using same by (rule sint_neither_less)
    have l: "log_InRelation eng es queryDesc s =
        (if \<not> SPI_connect_ok eng then (Raised ''SPI_connect failed'', ?s2)
         else log_execute eng q ?vals ?nulls ?s2)"
      using tt q same by (simp add: log_InRelation_def Let_def emit_def)
    show ?thesis
    proof (cases "SPI_connect_ok eng")
      case True
      from ex [of ?s2] obtain xs where
        "calls (snd (log_execute eng q ?vals ?nulls ?s2)) = calls ?s2 @ xs"
        "SPI_push \<notin> set xs" "SPI_pop \<notin> set xs" "SPI_connect \<notin> set xs"
        by blast
      then show ?thesis
        using l True same eq lv [of ?s2] by (intro exI [of _ xs]) (simp add: emit_def)
    next
      case False
      then show ?thesis
        using l same eq by (intro exI [of _ "[]"]) (simp add: emit_def)
    qed
  qed
qed

text \<open>The theorem at execution level 2 with the connection level still at 1, at execution
  level 1 with the connection level at 2, and at the top level with both at 0.\<close>

theorem log_InRelation_connection_stacking_witness:
  "totaltime (demo_query []) = Some \<lparr>total = 1 / 2\<rparr>
   \<and> take 2 (calls (snd (log_InRelation demo_engine (NewExplainState demo_engine) (demo_query [])
        (demo_state\<lparr>nesting_level := 2, nesting_spi_level := 1\<rparr>)))) = [SPI_push, SPI_connect]
   \<and> nesting_spi_level (snd (log_InRelation demo_engine (NewExplainState demo_engine) (demo_query [])
        (demo_state\<lparr>nesting_level := 2, nesting_spi_level := 1\<rparr>))) = 2
   \<and> take 1 (calls (snd (log_InRelation demo_engine (NewExplainState demo_engine) (demo_query [])
        (demo_state\<lparr>nesting_level := 1, nesting_spi_level := 2\<rparr>)))) = [SPI_pop]
   \<and> SPI_connect \<notin> set (calls (snd (log_InRelation demo_engine (NewExplainState demo_engine)
        (demo_query []) (demo_state\<lparr>nesting_level := 1, nesting_spi_level := 2\<rparr>))))
   \<and> nesting_spi_level (snd (log_InRelation demo_engine (NewExplainState demo_engine) (demo_query [])
        (demo_state\<lparr>nesting_level := 1, nesting_spi_level := 2\<rparr>))) = 1
   \<and> take 1 (calls (snd (log_InRelation demo_engine (NewExplainState demo_engine) (demo_query [])
        demo_state))) = [SPI_connect]
   \<and> SPI_push \<notin> set (calls (snd (log_InRelation demo_engine (NewExplainState demo_engine)
        (demo_query []) demo_state)))
   \<and> SPI_pop \<notin> set (calls (snd (log_InRelation demo_engine (NewExplainState demo_engine)
        (demo_query []) demo_state)))"
proof -
  have tt: "totaltime (demo_query []) = Some \<lparr>total = 1 / 2\<rparr>"
    by (simp add: demo_query_def)
  have c: "calls (demo_state\<lparr>nesting_level := 2, nesting_spi_level := 1\<rparr>) = []"
    "calls (demo_state\<lparr>nesting_level := 1, nesting_spi_level := 2\<rparr>) = []"
    "calls demo_state = []"
    by (simp_all add: demo_state_def initial_state_def)
  have z: "nesting_level demo_state = 0" "nesting_spi_level demo_state = 0"
    by (simp_all add: demo_state_def initial_state_def)
  from log_InRelation_connection_stacking [OF tt, of demo_engine "NewExplainState demo_engine"
      "demo_state\<lparr>nesting_level := 2, nesting_spi_level := 1\<rparr>"]
  have push: "take 2 (calls (snd (log_InRelation demo_engine (NewExplainState demo_engine) (demo_query [])
        (demo_state\<lparr>nesting_level := 2, nesting_spi_level := 1\<rparr>)))) = [SPI_push, SPI_connect]
   \<and> nesting_spi_level (snd (log_InRelation demo_engine (NewExplainState demo_engine) (demo_query [])
        (demo_state\<lparr>nesting_level := 2, nesting_spi_level := 1\<rparr>))) = 2"
    using c by auto
  from log_InRelation_connection_stacking [OF tt, of demo_engine "NewExplainState demo_engine"
      "demo_state\<lparr>nesting_level := 1, nesting_spi_level := 2\<rparr>"]
  have pop: "take 1 (calls (snd (log_InRelation demo_engine (NewExplainState demo_engine) (demo_query [])
        (demo_state\<lparr>nesting_level := 1, nesting_spi_level := 2\<rparr>)))) = [SPI_pop]
   \<and> SPI_connect \<notin> set (calls (snd (log_InRelation demo_engine (NewExplainState demo_engine)
        (demo_query []) (demo_state\<lparr>nesting_level := 1, nesting_spi_level := 2\<rparr>))))
   \<and> nesting_spi_level (snd (log_InRelation demo_engine (NewExplainState demo_engine) (demo_query [])
        (demo_state\<lparr>nesting_level := 1, nesting_spi_level := 2\<rparr>))) = 1"
    using c by auto
  from log_InRelation_connection_stacking [OF tt, of demo_engine "NewExplainState demo_engine"
      demo_state]
  have same: "take 1 (calls (snd (log_InRelation demo_engine (NewExplainState demo_engine) (demo_query [])
        demo_state))) = [SPI_connect]
   \<and> SPI_push \<notin> set (calls (snd (log_InRelation demo_engine (NewExplainState demo_engine)
        (demo_query []) demo_state)))
   \<and> SPI_pop \<notin> set (calls (snd (log_InRelation demo_engine (NewExplainState demo_engine)
        (demo_query []) demo_state)))"
    using c z by auto
  from tt push pop same show ?thesis by blast
qed

text \<open>Claim C6 as it is written has exactly one of the three actions in a call. At
  execution level 1 with the connection level at 0 the call both pushes and connects.\<close>

theorem log_InRelation_connection_stacking_counterexample:
  "sint (nesting_level (demo_state\<lparr>nesting_level := 1\<rparr>))
     > sint (nesting_spi_level (demo_state\<lparr>nesting_level := 1\<rparr>))
   \<and> SPI_push \<in> set (calls (snd (log_InRelation demo_engine (NewExplainState demo_engine)
        (demo_query []) (demo_state\<lparr>nesting_level := 1\<rparr>))))
   \<and> SPI_connect \<in> set (calls (snd (log_InRelation demo_engine (NewExplainState demo_engine)
        (demo_query []) (demo_state\<lparr>nesting_level := 1\<rparr>))))"
  by (simp add: demo_defs run_defs)

section \<open>The nesting counter\<close>

text \<open>
  Claim C4. The run hook and the finish hook call the previous handler, or the native step
  when there is none, on the state whose counter is one higher; the outcome of the hook is
  the outcome of that call, so a raised error is raised again; and unless the process died,
  the state after the hook is the state after that call with the counter one lower. Hence
  when the delegated call leaves the counter as it found it (the nested hook calls inside it
  are pairs of the same kind), the hook leaves the counter as it found it, and a top-level
  execution that started at 0 ends at 0, whether it returned or raised. The counter is a
  32-bit word here, so the statement does not depend on the counter staying in range.
\<close>

theorem nesting_level_restored:
  "(let s1 = s\<lparr>nesting_level := nesting_level s + 1\<rparr>;
        h = (case prev_ExecutorRun hk of Some prev \<Rightarrow> prev | None \<Rightarrow> standard_ExecutorRun hk);
        r = explain_ExecutorRun hk queryDesc s
    in fst r = fst (h queryDesc s1)
     \<and> (fst r \<noteq> Crashed \<longrightarrow>
          snd r = (snd (h queryDesc s1))\<lparr>nesting_level := nesting_level (snd (h queryDesc s1)) - 1\<rparr>)
     \<and> (fst r \<noteq> Crashed \<and> nesting_level (snd (h queryDesc s1)) = nesting_level s1 \<longrightarrow>
          nesting_level (snd r) = nesting_level s)
     \<and> (fst r \<noteq> Crashed \<and> nesting_level (snd (h queryDesc s1)) = nesting_level s1
          \<and> nesting_level s = 0 \<longrightarrow> nesting_level (snd r) = 0))
   \<and>
   (let s1 = s\<lparr>nesting_level := nesting_level s + 1\<rparr>;
        h = (case prev_ExecutorFinish hk of Some prev \<Rightarrow> prev | None \<Rightarrow> standard_ExecutorFinish hk);
        r = explain_ExecutorFinish hk queryDesc s
    in fst r = fst (h queryDesc s1)
     \<and> (fst r \<noteq> Crashed \<longrightarrow>
          snd r = (snd (h queryDesc s1))\<lparr>nesting_level := nesting_level (snd (h queryDesc s1)) - 1\<rparr>)
     \<and> (fst r \<noteq> Crashed \<and> nesting_level (snd (h queryDesc s1)) = nesting_level s1 \<longrightarrow>
          nesting_level (snd r) = nesting_level s)
     \<and> (fst r \<noteq> Crashed \<and> nesting_level (snd (h queryDesc s1)) = nesting_level s1
          \<and> nesting_level s = 0 \<longrightarrow> nesting_level (snd r) = 0))"
proof -
  have run: "fst (explain_ExecutorRun hk queryDesc s) = fst (h queryDesc s1)
     \<and> (fst (explain_ExecutorRun hk queryDesc s) \<noteq> Crashed \<longrightarrow>
          snd (explain_ExecutorRun hk queryDesc s) =
            (snd (h queryDesc s1))\<lparr>nesting_level := nesting_level (snd (h queryDesc s1)) - 1\<rparr>)"
    if "s1 = s\<lparr>nesting_level := nesting_level s + 1\<rparr>"
      "h = (case prev_ExecutorRun hk of Some prev \<Rightarrow> prev | None \<Rightarrow> standard_ExecutorRun hk)"
    for s1 h
  proof (cases "h queryDesc s1")
    case (Pair r s2)
    then show ?thesis
      using that
      by (cases r; cases "prev_ExecutorRun hk") (simp_all add: explain_ExecutorRun_def Let_def)
  qed
  have fin: "fst (explain_ExecutorFinish hk queryDesc s) = fst (h queryDesc s1)
     \<and> (fst (explain_ExecutorFinish hk queryDesc s) \<noteq> Crashed \<longrightarrow>
          snd (explain_ExecutorFinish hk queryDesc s) =
            (snd (h queryDesc s1))\<lparr>nesting_level := nesting_level (snd (h queryDesc s1)) - 1\<rparr>)"
    if "s1 = s\<lparr>nesting_level := nesting_level s + 1\<rparr>"
      "h = (case prev_ExecutorFinish hk of Some prev \<Rightarrow> prev | None \<Rightarrow> standard_ExecutorFinish hk)"
    for s1 h
  proof (cases "h queryDesc s1")
    case (Pair r s2)
    then show ?thesis
      using that
      by (cases r; cases "prev_ExecutorFinish hk") (simp_all add: explain_ExecutorFinish_def Let_def)
  qed
  show ?thesis
    unfolding Let_def
    using run [OF refl refl] fin [OF refl refl]
    by auto
qed

text \<open>The theorem at a top-level execution whose native run step starts a nested
  execution that raises: the error comes out of both hooks and the counter is 0 again.\<close>

theorem nesting_level_restored_witness:
  "explain_ExecutorRun nested_hooks (demo_query []) demo_state =
     (Raised ''division by zero'',
      demo_state\<lparr>calls := [Native_ExecutorRun, Native_ExecutorRun]\<rparr>)
   \<and> nesting_level (snd (standard_ExecutorRun nested_hooks (demo_query [])
        (demo_state\<lparr>nesting_level := nesting_level demo_state + 1\<rparr>))) = 1
   \<and> nesting_level demo_state = 0
   \<and> nesting_level (snd (explain_ExecutorRun nested_hooks (demo_query []) demo_state)) = 0
   \<and> nesting_level (snd (explain_ExecutorFinish nested_hooks (demo_query []) demo_state)) = 0"
proof -
  have p: "prev_ExecutorRun nested_hooks = None" "prev_ExecutorFinish nested_hooks = None"
    by (simp_all add: nested_hooks_def demo_hooks_def)
  have r: "standard_ExecutorRun nested_hooks (demo_query [])
        (demo_state\<lparr>nesting_level := nesting_level demo_state + 1\<rparr>) =
      (Raised ''division by zero'',
       demo_state\<lparr>nesting_level := 1, calls := [Native_ExecutorRun, Native_ExecutorRun]\<rparr>)"
    by (simp add: nested_hooks_def raising_hooks_def demo_hooks_def explain_ExecutorRun_def
        emit_def demo_state_def initial_state_def)
  have f: "standard_ExecutorFinish nested_hooks (demo_query [])
        (demo_state\<lparr>nesting_level := nesting_level demo_state + 1\<rparr>) =
      (Raised ''division by zero'',
       demo_state\<lparr>nesting_level := 1, calls := [Native_ExecutorFinish, Native_ExecutorFinish]\<rparr>)"
    by (simp add: nested_hooks_def raising_hooks_def demo_hooks_def explain_ExecutorFinish_def
        emit_def demo_state_def initial_state_def)
  have z: "nesting_level demo_state = 0"
    by (simp add: demo_state_def initial_state_def)
  show ?thesis
    using nesting_level_restored [of demo_state nested_hooks "demo_query []"] p r f z
    by (simp add: Let_def prod_eq_iff)
qed

section \<open>The cached sink identifiers\<close>

lemma set_qflash_relname_oid_paired:
  "sink_ids_paired s \<Longrightarrow> sink_ids_paired (snd (set_qflash_relname_oid eng n s))"
  by (simp add: set_qflash_relname_oid_def sink_ids_paired_def Let_def)

lemma get_qflash_log_rel_oid_paired:
  "sink_ids_paired s \<Longrightarrow> sink_ids_paired (snd (get_qflash_log_rel_oid eng s))"
  by (auto simp: resolve_defs sink_ids_paired_def Let_def)

text \<open>
  Claim C7, as the code has it. Turning the enabled flag off unsets both identifiers, and
  turning it on changes nothing. Resolving the relation, the relation check hook, the lazy
  resolution, the eligibility decision and the assign hook of the enabled flag all keep the
  pairing of the two identifiers: after each of them the relation identifier is valid only
  if the namespace identifier is. A resolution of the relation that succeeds leaves both
  valid. A failed resolution unsets the identifier whose lookup failed: a relation name
  that does not resolve in a valid namespace leaves the relation identifier unset and the
  namespace identifier as it was, and in the lazy resolution, which starts from an unset
  relation identifier, a namespace name that does not resolve leaves both unset. While the
  flag is on the relation check hook resolves the new relation name exactly as
  \<^verbatim>\<open>set_qflash_relname_oid\<close> does; while it is off the check hooks accept every name and
  change nothing. What the namespace check hook does to the pair while the flag is on is
  not part of this statement.
\<close>

theorem sink_ids_invalidation:
  "qflash_log_rel_oid (enabled_GucAssign False s) = InvalidOid
   \<and> qflash_log_namespace_oid (enabled_GucAssign False s) = InvalidOid
   \<and> enabled_GucAssign True s = s
   \<and> (sink_ids_paired s \<longrightarrow>
        sink_ids_paired (snd (set_qflash_relname_oid eng name s))
        \<and> sink_ids_paired (snd (rel_GucCheck eng name s))
        \<and> sink_ids_paired (snd (get_qflash_log_rel_oid eng s))
        \<and> sink_ids_paired (snd (qflash_enabled eng queryDesc s))
        \<and> sink_ids_paired (enabled_GucAssign newval s))
   \<and> (fst (set_qflash_relname_oid eng name s) \<longrightarrow>
        OidIsValid (qflash_log_rel_oid (snd (set_qflash_relname_oid eng name s)))
        \<and> OidIsValid (qflash_log_namespace_oid (snd (set_qflash_relname_oid eng name s))))
   \<and> (\<not> fst (set_qflash_relname_oid eng name s)
        \<and> OidIsValid (qflash_log_namespace_oid s) \<and> name \<noteq> [] \<longrightarrow>
        qflash_log_rel_oid (snd (set_qflash_relname_oid eng name s)) = InvalidOid
        \<and> qflash_log_namespace_oid (snd (set_qflash_relname_oid eng name s)) =
            qflash_log_namespace_oid s)
   \<and> (\<not> OidIsValid (qflash_log_rel_oid s) \<and> qflash_log_namespace_name s \<noteq> []
        \<and> \<not> OidIsValid (get_namespace_oid eng (qflash_log_namespace_name s)) \<longrightarrow>
        qflash_log_rel_oid (snd (get_qflash_log_rel_oid eng s)) = InvalidOid
        \<and> qflash_log_namespace_oid (snd (get_qflash_log_rel_oid eng s)) = InvalidOid)
   \<and> (qflash_enabled_status s \<longrightarrow>
        rel_GucCheck eng name s = set_qflash_relname_oid eng name s)
   \<and> (\<not> qflash_enabled_status s \<longrightarrow>
        namespace_GucCheck eng name s = (True, s) \<and> rel_GucCheck eng name s = (True, s))"
proof -
  have a: "qflash_log_rel_oid (enabled_GucAssign False s) = InvalidOid
      \<and> qflash_log_namespace_oid (enabled_GucAssign False s) = InvalidOid
      \<and> enabled_GucAssign True s = s"
    by (simp add: enabled_GucAssign_def)
  have b: "sink_ids_paired (snd (set_qflash_relname_oid eng name s))
        \<and> sink_ids_paired (snd (rel_GucCheck eng name s))
        \<and> sink_ids_paired (snd (get_qflash_log_rel_oid eng s))
        \<and> sink_ids_paired (snd (qflash_enabled eng queryDesc s))
        \<and> sink_ids_paired (enabled_GucAssign newval s)" if p: "sink_ids_paired s"
  proof -
    have "sink_ids_paired (snd (rel_GucCheck eng name s))"
      using set_qflash_relname_oid_paired [OF p, of eng name] p
      by (cases "set_qflash_relname_oid eng name s") (auto simp: rel_GucCheck_def)
    moreover have "sink_ids_paired (enabled_GucAssign newval s)"
      using p by (simp add: enabled_GucAssign_def sink_ids_paired_def OidIsValid_def)
    moreover have "sink_ids_paired (snd (qflash_enabled eng queryDesc s))"
      using qflash_enabled_state [of eng queryDesc s] p get_qflash_log_rel_oid_paired [OF p, of eng]
      by auto
    ultimately show ?thesis
      using set_qflash_relname_oid_paired [OF p] get_qflash_log_rel_oid_paired [OF p] by simp
  qed
  have c: "fst (set_qflash_relname_oid eng name s) \<longrightarrow>
        OidIsValid (qflash_log_rel_oid (snd (set_qflash_relname_oid eng name s)))
        \<and> OidIsValid (qflash_log_namespace_oid (snd (set_qflash_relname_oid eng name s)))"
    by (simp add: set_qflash_relname_oid_def Let_def)
  have d: "\<not> fst (set_qflash_relname_oid eng name s)
        \<and> OidIsValid (qflash_log_namespace_oid s) \<and> name \<noteq> [] \<longrightarrow>
        qflash_log_rel_oid (snd (set_qflash_relname_oid eng name s)) = InvalidOid
        \<and> qflash_log_namespace_oid (snd (set_qflash_relname_oid eng name s)) =
            qflash_log_namespace_oid s"
    by (simp add: set_qflash_relname_oid_def Let_def OidIsValid_def)
  have f: "\<not> OidIsValid (qflash_log_rel_oid s) \<and> qflash_log_namespace_name s \<noteq> []
        \<and> \<not> OidIsValid (get_namespace_oid eng (qflash_log_namespace_name s)) \<longrightarrow>
        qflash_log_rel_oid (snd (get_qflash_log_rel_oid eng s)) = InvalidOid
        \<and> qflash_log_namespace_oid (snd (get_qflash_log_rel_oid eng s)) = InvalidOid"
    by (simp add: resolve_defs Let_def OidIsValid_def)
  have g: "qflash_enabled_status s \<longrightarrow>
        rel_GucCheck eng name s = set_qflash_relname_oid eng name s"
    by (cases "set_qflash_relname_oid eng name s") (simp add: rel_GucCheck_def)
  have h: "\<not> qflash_enabled_status s \<longrightarrow>
        namespace_GucCheck eng name s = (True, s) \<and> rel_GucCheck eng name s = (True, s)"
    by (simp add: namespace_GucCheck_def rel_GucCheck_def)
  from a b c d f g h show ?thesis by blast
qed

text \<open>The theorem at the concrete session: a resolution that succeeds, a relation name
  that fails while the flag is on, a namespace name that fails in the lazy resolution, the
  check hooks while the flag is off, and the flag turned off after the sink was resolved.\<close>

theorem sink_ids_invalidation_witness:
  "sink_ids_paired demo_state
   \<and> qflash_enabled_status (snd (set_qflash_namespace_oid demo_engine ''public'' demo_state))
   \<and> OidIsValid (qflash_log_namespace_oid
        (snd (set_qflash_namespace_oid demo_engine ''public'' demo_state)))
   \<and> rel_GucCheck demo_engine ''qflash_log''
        (snd (set_qflash_namespace_oid demo_engine ''public'' demo_state)) =
       (True, demo_state\<lparr>qflash_log_namespace_oid := 2200, qflash_log_rel_oid := 16384\<rparr>)
   \<and> rel_GucCheck demo_engine ''missing''
        (snd (set_qflash_namespace_oid demo_engine ''public'' demo_state)) =
       (False, demo_state\<lparr>qflash_log_namespace_oid := 2200, qflash_log_rel_oid := InvalidOid\<rparr>)
   \<and> \<not> OidIsValid (get_namespace_oid demo_engine ''nope'')
   \<and> snd (get_qflash_log_rel_oid demo_engine (demo_state\<lparr>qflash_log_namespace_name := ''nope''\<rparr>)) =
       demo_state\<lparr>qflash_log_namespace_name := ''nope''\<rparr>
   \<and> \<not> qflash_enabled_status initial_state
   \<and> namespace_GucCheck demo_engine ''nope'' initial_state = (True, initial_state)
   \<and> sink_ids_paired (snd (get_qflash_log_rel_oid demo_engine demo_state))
   \<and> qflash_log_rel_oid (enabled_GucAssign False
        (snd (get_qflash_log_rel_oid demo_engine demo_state))) = InvalidOid
   \<and> qflash_log_namespace_oid (enabled_GucAssign False
        (snd (get_qflash_log_rel_oid demo_engine demo_state))) = InvalidOid"
proof -
  let ?s = "snd (set_qflash_namespace_oid demo_engine ''public'' demo_state)"
  let ?n = "demo_state\<lparr>qflash_log_namespace_name := ''nope''\<rparr>"
  have p: "sink_ids_paired demo_state"
    by (simp add: sink_ids_paired_def demo_defs OidIsValid_def)
  have en: "qflash_enabled_status ?s"
    by (simp add: resolve_defs demo_defs OidIsValid_def InvalidOid_def Let_def)
  have ns: "OidIsValid (qflash_log_namespace_oid ?s)"
    by (simp add: resolve_defs demo_defs OidIsValid_def InvalidOid_def Let_def)
  have a: "set_qflash_relname_oid demo_engine ''qflash_log'' ?s =
       (True, demo_state\<lparr>qflash_log_namespace_oid := 2200, qflash_log_rel_oid := 16384\<rparr>)"
    by (simp add: resolve_defs demo_defs OidIsValid_def InvalidOid_def Let_def)
  have c: "set_qflash_relname_oid demo_engine ''missing'' ?s =
       (False, demo_state\<lparr>qflash_log_namespace_oid := 2200, qflash_log_rel_oid := InvalidOid\<rparr>)"
    by (simp add: resolve_defs demo_defs OidIsValid_def InvalidOid_def Let_def)
  have d: "\<not> OidIsValid (qflash_log_rel_oid ?n) \<and> qflash_log_namespace_name ?n \<noteq> []
      \<and> \<not> OidIsValid (get_namespace_oid demo_engine (qflash_log_namespace_name ?n))"
    by (simp add: demo_defs OidIsValid_def InvalidOid_def)
  have frame: "snd (get_qflash_log_rel_oid demo_engine ?n) =
      ?n\<lparr>qflash_log_namespace_oid := qflash_log_namespace_oid (snd (get_qflash_log_rel_oid demo_engine ?n)),
         qflash_log_rel_oid := qflash_log_rel_oid (snd (get_qflash_log_rel_oid demo_engine ?n))\<rparr>"
    by (rule get_qflash_log_rel_oid_frame)
  have e: "\<not> qflash_enabled_status initial_state"
    by (simp add: initial_state_def)
  from sink_ids_invalidation [of ?s demo_engine "''qflash_log''" "demo_query []" True] en a
  have w1: "rel_GucCheck demo_engine ''qflash_log'' ?s =
       (True, demo_state\<lparr>qflash_log_namespace_oid := 2200, qflash_log_rel_oid := 16384\<rparr>)"
    by simp
  from sink_ids_invalidation [of ?s demo_engine "''missing''" "demo_query []" True] en c
  have w2: "rel_GucCheck demo_engine ''missing'' ?s =
       (False, demo_state\<lparr>qflash_log_namespace_oid := 2200, qflash_log_rel_oid := InvalidOid\<rparr>)"
    by simp
  from sink_ids_invalidation [of ?n demo_engine "''missing''" "demo_query []" True] d
  have "qflash_log_rel_oid (snd (get_qflash_log_rel_oid demo_engine ?n)) = InvalidOid
      \<and> qflash_log_namespace_oid (snd (get_qflash_log_rel_oid demo_engine ?n)) = InvalidOid"
    by blast
  with frame have w3: "snd (get_qflash_log_rel_oid demo_engine ?n) = ?n"
    by (simp add: demo_state_def initial_state_def)
  from sink_ids_invalidation [of initial_state demo_engine "''nope''" "demo_query []" True] e
  have w4: "namespace_GucCheck demo_engine ''nope'' initial_state = (True, initial_state)"
    by blast
  from sink_ids_invalidation [of demo_state demo_engine "''qflash_log''" "demo_query []" True] p
  have w5: "sink_ids_paired (snd (get_qflash_log_rel_oid demo_engine demo_state))"
    by blast
  from sink_ids_invalidation [of "snd (get_qflash_log_rel_oid demo_engine demo_state)"
      demo_engine "''missing''" "demo_query []" False]
  have w6: "qflash_log_rel_oid (enabled_GucAssign False
        (snd (get_qflash_log_rel_oid demo_engine demo_state))) = InvalidOid
      \<and> qflash_log_namespace_oid (enabled_GucAssign False
        (snd (get_qflash_log_rel_oid demo_engine demo_state))) = InvalidOid"
    by blast
  from p en ns w1 w2 d w3 e w4 w5 w6 show ?thesis
    by simp
qed

text \<open>Claim C7 as it is written has a failed resolution leave both identifiers unset.
  With a relation name that does not exist in an existing namespace the lazy resolution
  fails and the namespace identifier stays cached.\<close>

theorem sink_ids_invalidation_counterexample:
  "\<not> OidIsValid (fst (get_qflash_log_rel_oid demo_engine
        (demo_state\<lparr>qflash_log_rel_name := ''missing''\<rparr>)))
   \<and> OidIsValid (qflash_log_namespace_oid (snd (get_qflash_log_rel_oid demo_engine
        (demo_state\<lparr>qflash_log_rel_name := ''missing''\<rparr>))))"
  by (simp add: resolve_defs demo_defs OidIsValid_def InvalidOid_def Let_def)

section \<open>Plan text post-processing\<close>

text \<open>
  Claim C8. When the text ends with a line feed, \<^verbatim>\<open>remove_last_line_break\<close> removes
  exactly that one character; otherwise it leaves the text unchanged. On a text of at least
  two characters the brace repair yields a text of the same length that starts with an
  opening and ends with a closing brace and is unchanged in between, and applying it to
  that result again changes nothing.
\<close>

theorem plan_text_post_processing:
  "(data \<noteq> [] \<and> last data = LF \<longrightarrow>
      data = remove_last_line_break data @ [LF]
      \<and> length (remove_last_line_break data) = length data - 1)
   \<and> (\<not> (data \<noteq> [] \<and> last data = LF) \<longrightarrow> remove_last_line_break data = data)
   \<and> (2 \<le> length data \<longrightarrow>
        (\<exists>r. fix_json_object data = Some r
           \<and> length r = length data \<and> hd r = CHR ''{'' \<and> last r = CHR ''}''
           \<and> (\<forall>i. 0 < i \<and> i < length data - 1 \<longrightarrow> r ! i = data ! i)
           \<and> fix_json_object r = Some r))"
proof (intro conjI impI)
  assume a: "data \<noteq> [] \<and> last data = LF"
  then have "data ! (length data - 1) = LF" by (auto simp: last_conv_nth)
  with a have r: "remove_last_line_break data = butlast data"
    by (simp add: remove_last_line_break_def butlast_conv_take)
  from a show "data = remove_last_line_break data @ [LF]"
    unfolding r by (metis append_butlast_last_id)
  show "length (remove_last_line_break data) = length data - 1"
    unfolding r by simp
next
  assume "\<not> (data \<noteq> [] \<and> last data = LF)"
  then show "remove_last_line_break data = data"
    by (auto simp: remove_last_line_break_def last_conv_nth)
next
  assume l: "2 \<le> length data"
  let ?r = "(data[0 := CHR ''{''])[length data - 1 := CHR ''}'']"
  from l have ne: "data \<noteq> []" by auto
  have f: "fix_json_object data = Some ?r"
    using l ne by (simp add: fix_json_object_def)
  have len: "length ?r = length data" by simp
  have h: "hd ?r = CHR ''{''"
    using l ne by (simp add: hd_conv_nth)
  have la: "last ?r = CHR ''}''"
    using l ne by (simp add: last_conv_nth)
  have mid: "\<forall>i. 0 < i \<and> i < length data - 1 \<longrightarrow> ?r ! i = data ! i"
    by simp
  have "?r[0 := CHR ''{''] = ?r"
    using l ne by (simp add: list_update_swap)
  then have idem: "fix_json_object ?r = Some ?r"
    using l ne by (simp add: fix_json_object_def)
  from f len h la mid idem
  show "\<exists>r. fix_json_object data = Some r
           \<and> length r = length data \<and> hd r = CHR ''{'' \<and> last r = CHR ''}''
           \<and> (\<forall>i. 0 < i \<and> i < length data - 1 \<longrightarrow> r ! i = data ! i)
           \<and> fix_json_object r = Some r"
    by blast
qed

text \<open>The theorem at a text that ends with two line feeds, at one that ends with none,
  and at a bracketed text.\<close>

theorem plan_text_post_processing_witness:
  "remove_last_line_break (''Seq Scan'' @ [LF, LF]) = ''Seq Scan'' @ [LF]
   \<and> remove_last_line_break ''Seq Scan'' = ''Seq Scan''
   \<and> fix_json_object ''[ab]'' = Some ''{ab}''
   \<and> fix_json_object ''{ab}'' = Some ''{ab}''"
proof -
  have a: "''Seq Scan'' @ [LF, LF] \<noteq> [] \<and> last (''Seq Scan'' @ [LF, LF]) = LF"
    by simp
  have b: "\<not> (''Seq Scan'' \<noteq> [] \<and> last ''Seq Scan'' = LF)"
    by (simp add: LF_def)
  have c: "2 \<le> length ''[ab]''" by simp
  have d: "fix_json_object ''[ab]'' = Some ''{ab}''"
    by (simp add: fix_json_object_def)
  from plan_text_post_processing [of "''Seq Scan'' @ [LF, LF]"] a
  have "''Seq Scan'' @ [LF, LF] = remove_last_line_break (''Seq Scan'' @ [LF, LF]) @ [LF]"
    by blast
  then have e: "remove_last_line_break (''Seq Scan'' @ [LF, LF]) = ''Seq Scan'' @ [LF]"
    by simp
  from plan_text_post_processing [of "''Seq Scan''"] b
  have f: "remove_last_line_break ''Seq Scan'' = ''Seq Scan''"
    by blast
  from plan_text_post_processing [of "''[ab]''"] c d
  have g: "fix_json_object ''{ab}'' = Some ''{ab}''"
    by auto
  from d e f g show ?thesis by simp
qed

section \<open>Provisioning the sink table\<close>

lemma read_cstring_terminated:
  assumes "zero_terminated t"
  shows "read_cstring (vardata t @ beyond t) = vardata t"
proof -
  from assms obtain rest where b: "beyond t = CHR 0x00 # rest"
    by (cases "beyond t") (auto simp: zero_terminated_def)
  from assms have "\<forall>c \<in> set (vardata t). c \<noteq> CHR 0x00"
    by (auto simp: zero_terminated_def)
  then show ?thesis
    unfolding read_cstring_def b by (simp add: takeWhile_tail)
qed

lemma ddl_text:
  "appendStringInfo ddl_format [ns, rel] =
     [TAB, TAB] @ ''CREATE TABLE '' @ ns @ ''.'' @ rel @
     [TAB, TAB] @ ''('' @
     concat (map (\<lambda>column. [TAB, TAB, TAB] @ column @ '','')
       [''id BIGSERIAL NOT NULL'',
        ''added TIME WITH TIME ZONE NOT NULL DEFAULT now()'',
        ''query TEXT'',
        ''plan TEXT'',
        ''total_time DOUBLE PRECISION'',
        ''hash TEXT'']) @
     [TAB, TAB, TAB] @ ''CONSTRAINT qflash_pkey PRIMARY KEY(id)'' @
     [TAB, TAB] @ '')'' @ [TAB]"
  by (simp add: ddl_format_def TAB_def)

text \<open>An argument that is not followed by a zero byte: the statement names the table by
  the value and the bytes after it.\<close>

lemma ddl_query_reads_past_text:
  "occurs_in ''CREATE TABLE public~~~.qflash_log''
     (ddl_query \<lparr>vardata = ''public'', beyond = ''~~~'' @ [CHR 0x00]\<rparr>
        (terminated_text ''qflash_log''))"
  by (simp add: ddl_query_def ddl_format_def TAB_def read_cstring_def terminated_text_def)

text \<open>
  Claim C9, as the code has it. For every pair of arguments the statement built by
  \<^verbatim>\<open>qflash_init\<close> has the form \<^verbatim>\<open>CREATE TABLE N.R\<close> followed by the column list
  \<^verbatim>\<open>id BIGSERIAL NOT NULL\<close>, \<^verbatim>\<open>added TIME WITH TIME ZONE NOT NULL DEFAULT now()\<close>,
  \<^verbatim>\<open>query TEXT\<close>, \<^verbatim>\<open>plan TEXT\<close>, \<^verbatim>\<open>total_time DOUBLE PRECISION\<close>, \<^verbatim>\<open>hash TEXT\<close> and
  the primary key on \<^verbatim>\<open>id\<close>. \<^verbatim>\<open>N\<close> is the namespace argument when that is followed by a
  zero byte in memory, and \<^verbatim>\<open>R\<close> is the relation argument when that is. When the
  connection succeeds this statement is the one that is executed.
\<close>

theorem qflash_init_sink_table:
  "\<exists>N R.
     ddl_query namespace_name relname_name =
       [TAB, TAB] @ ''CREATE TABLE '' @ N @ ''.'' @ R @
       [TAB, TAB] @ ''('' @
       concat (map (\<lambda>column. [TAB, TAB, TAB] @ column @ '','')
         [''id BIGSERIAL NOT NULL'',
          ''added TIME WITH TIME ZONE NOT NULL DEFAULT now()'',
          ''query TEXT'',
          ''plan TEXT'',
          ''total_time DOUBLE PRECISION'',
          ''hash TEXT'']) @
       [TAB, TAB, TAB] @ ''CONSTRAINT qflash_pkey PRIMARY KEY(id)'' @
       [TAB, TAB] @ '')'' @ [TAB]
     \<and> (zero_terminated namespace_name \<longrightarrow> N = vardata namespace_name)
     \<and> (zero_terminated relname_name \<longrightarrow> R = vardata relname_name)
     \<and> (SPI_connect_ok eng \<longrightarrow>
          (\<exists>rest. calls (snd (qflash_init eng namespace_name relname_name s)) =
             calls s @ [SPI_connect, SPI_execute (ddl_query namespace_name relname_name)] @ rest
             \<and> set rest \<subseteq> {SPI_finish}))"
proof -
  let ?N = "read_cstring (vardata namespace_name @ beyond namespace_name)"
  let ?R = "read_cstring (vardata relname_name @ beyond relname_name)"
  have run: "\<exists>rest. calls (snd (qflash_init eng namespace_name relname_name s)) =
           calls s @ [SPI_connect, SPI_execute (ddl_query namespace_name relname_name)] @ rest
           \<and> set rest \<subseteq> {SPI_finish}" if "SPI_connect_ok eng"
    using that by (simp add: qflash_init_def emit_def Let_def)
  have ddl: "ddl_query namespace_name relname_name =
       [TAB, TAB] @ ''CREATE TABLE '' @ ?N @ ''.'' @ ?R @
       [TAB, TAB] @ ''('' @
       concat (map (\<lambda>column. [TAB, TAB, TAB] @ column @ '','')
         [''id BIGSERIAL NOT NULL'',
          ''added TIME WITH TIME ZONE NOT NULL DEFAULT now()'',
          ''query TEXT'',
          ''plan TEXT'',
          ''total_time DOUBLE PRECISION'',
          ''hash TEXT'']) @
       [TAB, TAB, TAB] @ ''CONSTRAINT qflash_pkey PRIMARY KEY(id)'' @
       [TAB, TAB] @ '')'' @ [TAB]"
    unfolding ddl_query_def by (rule ddl_text)
  from ddl run read_cstring_terminated [of namespace_name] read_cstring_terminated [of relname_name]
  show ?thesis
    by (intro exI [of _ ?N] exI [of _ ?R]) blast
qed

text \<open>The theorem for \<^verbatim>\<open>public.qflash_log\<close> on the concrete engine, with both arguments
  followed by a zero byte.\<close>

theorem qflash_init_sink_table_witness:
  "zero_terminated (terminated_text ''public'')
   \<and> zero_terminated (terminated_text ''qflash_log'')
   \<and> SPI_connect_ok demo_engine
   \<and> calls (snd (qflash_init demo_engine (terminated_text ''public'')
        (terminated_text ''qflash_log'') initial_state)) =
       [SPI_connect,
        SPI_execute (appendStringInfo ddl_format [''public'', ''qflash_log'']),
        SPI_finish]"
proof -
  have z: "zero_terminated (terminated_text ''public'')"
    "zero_terminated (terminated_text ''qflash_log'')"
    by (simp_all add: zero_terminated_def terminated_text_def)
  have v: "vardata (terminated_text ''public'') = ''public''"
    "vardata (terminated_text ''qflash_log'') = ''qflash_log''"
    by (simp_all add: terminated_text_def)
  have c: "SPI_connect_ok demo_engine" by (simp add: demo_engine_def)
  have i: "calls initial_state = []" by (simp add: initial_state_def)
  from qflash_init_sink_table [of "terminated_text ''public''" "terminated_text ''qflash_log''"
      demo_engine initial_state] z c
  obtain N R where
    ddl: "ddl_query (terminated_text ''public'') (terminated_text ''qflash_log'') =
       [TAB, TAB] @ ''CREATE TABLE '' @ N @ ''.'' @ R @
       [TAB, TAB] @ ''('' @
       concat (map (\<lambda>column. [TAB, TAB, TAB] @ column @ '','')
         [''id BIGSERIAL NOT NULL'',
          ''added TIME WITH TIME ZONE NOT NULL DEFAULT now()'',
          ''query TEXT'',
          ''plan TEXT'',
          ''total_time DOUBLE PRECISION'',
          ''hash TEXT'']) @
       [TAB, TAB, TAB] @ ''CONSTRAINT qflash_pkey PRIMARY KEY(id)'' @
       [TAB, TAB] @ '')'' @ [TAB]"
    and n: "N = vardata (terminated_text ''public'')"
    and r: "R = vardata (terminated_text ''qflash_log'')"
    by blast
  have q: "ddl_query (terminated_text ''public'') (terminated_text ''qflash_log'') =
      appendStringInfo ddl_format [''public'', ''qflash_log'']"
    unfolding ddl n r v by (simp only: ddl_text)
  have "calls (snd (qflash_init demo_engine (terminated_text ''public'')
        (terminated_text ''qflash_log'') initial_state)) =
      calls initial_state @ [SPI_connect,
        SPI_execute (ddl_query (terminated_text ''public'') (terminated_text ''qflash_log'')),
        SPI_finish]"
    by (simp add: qflash_init_def emit_def Let_def demo_engine_def)
  with z c i q show ?thesis by simp
qed

text \<open>Claim C9 as it is written makes \<^verbatim>\<open>added\<close> a timestamp. The statement declares
  it as a time of day with time zone, and the word \<^verbatim>\<open>TIMESTAMP\<close> occurs nowhere in it.\<close>

theorem qflash_init_sink_table_counterexample:
  "occurs_in ''added TIME WITH TIME ZONE NOT NULL DEFAULT now(),''
     (ddl_query (terminated_text ''public'') (terminated_text ''qflash_log''))
   \<and> \<not> occurs_in ''TIMESTAMP''
     (ddl_query (terminated_text ''public'') (terminated_text ''qflash_log''))"
  by (simp add: ddl_query_def ddl_format_def TAB_def read_cstring_def terminated_text_def)

end
